theory Spec2Isabelle
  imports Complex_Main "HOL-Library.Word" "HOL-Library.Sublist" "HOL-Library.AList"
begin

section \<open>JavaScript values\<close>

text \<open>
  A JavaScript string is a sequence of UTF-16 code units; \<open>.length\<close> counts them, the
  regular expression \<open>/^[A-Za-z]+$/\<close> and \<open>String.prototype.includes\<close> work on them.
  Literals of the source are written \<open>js ''...''\<close>.
\<close>

type_synonym code_unit = "16 word"
type_synonym jsstring = "code_unit list"

definition js :: "string \<Rightarrow> jsstring" where
  "js s = map of_char s"

text \<open>
  What \<open>JSON.parse\<close> can return. A number's value is never inspected by the code of this
  repository, only its type. An object is its list of own properties; reading a property
  that is absent gives \<open>undefined\<close>, modelled as \<open>None\<close>.
\<close>

datatype jsval =
    JNull
  | JBool bool
  | JNum rat
  | JStr jsstring
  | JArr "jsval list"
  | JObj "(jsstring \<times> jsval) list"

text \<open>A thrown value: an \<open>Error\<close> (or \<open>TypeError\<close>) object with its message.\<close>

datatype js_error = Error (message: jsstring) | TypeError (message: jsstring)

text \<open>
  \<open>v.k\<close> for the property names this code reads (\<open>name\<close>, \<open>ticker\<close>, \<open>symbol\<close>, ...,
  none of them inherited from a prototype): a \<open>TypeError\<close> on \<open>null\<close>, \<open>undefined\<close> on
  a primitive or an array, the own property on an object.
\<close>

fun get_prop :: "jsval \<Rightarrow> jsstring \<Rightarrow> js_error + jsval option" where
  "get_prop JNull k = Inl (TypeError (js ''Cannot read properties of null''))"
| "get_prop (JObj kvs) k = Inr (map_of kvs k)"
| "get_prop v k = Inr None"

text \<open>
  \<open>v.k = x\<close> in strict mode (a class body always is): a \<open>TypeError\<close> on \<open>null\<close> and on a
  primitive. An array accepts the property; the model does not keep it, since no property
  read by this code is then defined on the array either way.
\<close>

fun set_prop :: "jsval \<Rightarrow> jsstring \<Rightarrow> jsval \<Rightarrow> js_error + jsval" where
  "set_prop (JObj kvs) k x = Inr (JObj (AList.update k x kvs))"
| "set_prop (JArr xs) k x = Inr (JArr xs)"
| "set_prop v k x = Inl (TypeError (js ''Cannot create property''))"

text \<open>\<open>typeof v === "string"\<close>, \<open>typeof v === "number"\<close> on the result of a property read.\<close>

fun is_string :: "jsval option \<Rightarrow> bool" where
  "is_string (Some (JStr s)) = True"
| "is_string v = False"

fun is_number :: "jsval option \<Rightarrow> bool" where
  "is_number (Some (JNum n)) = True"
| "is_number v = False"

text \<open>\<open>/^[A-Za-z]+$/.test(s)\<close>: no flag, so \<open>^\<close> and \<open>$\<close> are the two ends of \<open>s\<close>.\<close>

definition is_alpha :: "code_unit \<Rightarrow> bool" where
  "is_alpha c = ((0x41 \<le> c \<and> c \<le> 0x5A) \<or> (0x61 \<le> c \<and> c \<le> 0x7A))"

definition alphabetic :: "jsstring \<Rightarrow> bool" where
  "alphabetic s = (s \<noteq> [] \<and> list_all is_alpha s)"

text \<open>
  \<open>String.prototype.toUpperCase\<close> on the strings it is applied to here, which
  \<open>validateTokenInfo\<close> has restricted to ASCII letters: a lower-case letter moves to its
  upper-case code unit, any other code unit of that range stays.
\<close>

definition upper_unit :: "code_unit \<Rightarrow> code_unit" where
  "upper_unit c = (if 0x61 \<le> c \<and> c \<le> 0x7A then c - 0x20 else c)"

definition toUpperCase :: "jsstring \<Rightarrow> jsstring" where
  "toUpperCase s = map upper_unit s"

definition is_upper :: "code_unit \<Rightarrow> bool" where
  "is_upper c = (0x41 \<le> c \<and> c \<le> 0x5A)"

text \<open>
  \<open>String.prototype.includes(searchString)\<close>: the search string occurs as a contiguous
  run of code units; the empty search string occurs in every string.
\<close>

fun str_includes :: "jsstring \<Rightarrow> jsstring \<Rightarrow> bool" where
  "str_includes [] searchString = (searchString = [])"
| "str_includes (c # cs) searchString = (prefix searchString (c # cs) \<or> str_includes cs searchString)"

text \<open>
  \<open>String.prototype.trim\<close> removes the WhiteSpace and LineTerminator code units of
  ECMAScript from both ends.
\<close>

definition is_white_space :: "code_unit \<Rightarrow> bool" where
  "is_white_space c =
     (c = 0x09 \<or> c = 0x0A \<or> c = 0x0B \<or> c = 0x0C \<or> c = 0x0D \<or> c = 0x20 \<or> c = 0xA0 \<or>
      c = 0x1680 \<or> (0x2000 \<le> c \<and> c \<le> 0x200A) \<or> c = 0x2028 \<or> c = 0x2029 \<or>
      c = 0x202F \<or> c = 0x205F \<or> c = 0x3000 \<or> c = 0xFEFF)"

definition trim :: "jsstring \<Rightarrow> jsstring" where
  "trim s = rev (dropWhile is_white_space (rev (dropWhile is_white_space s)))"

text \<open>\<open>!x\<close> for \<open>x\<close> a string, \<open>null\<close> or \<open>undefined\<close>: the empty string is falsy too.\<close>

fun falsy :: "jsstring option \<Rightarrow> bool" where
  "falsy None = True"
| "falsy (Some s) = (s = [])"

text \<open>\<open>x || []\<close>\<close>

fun or_empty :: "'a list option \<Rightarrow> 'a list" where
  "or_empty None = []"
| "or_empty (Some xs) = xs"

text \<open>\<open>xs[i]\<close>: \<open>undefined\<close> out of range.\<close>

definition at_index :: "'a list \<Rightarrow> nat \<Rightarrow> 'a option" where
  "at_index xs i = (if i < length xs then Some (xs ! i) else None)"

section \<open>Collaborators, state and effects\<close>

record TwitterTrend =
  name :: jsstring
  url :: jsstring
  promoted_content :: bool
  query :: jsstring
  tweet_volume :: "rat option"

text \<open>
  Modelled from the spec: the \<open>Tweet\<close> type of the social client is not part of this
  repository; the spec's CandidatePost is a fetched post with id, author, text, thread,
  photos and a retweet flag, all present. Only the fields that decide the control flow
  of \<open>engageWithSearchTerms\<close> are kept.
\<close>

datatype tweet =
  Tweet (tweet_id: jsstring) (username: jsstring) (tweet_text: jsstring)
        (thread: "tweet list") (photos: "jsstring list") (isRetweet: bool)

text \<open>
  A prompt is kept as the data its template string embeds, not as the formatted text:
  the trend for the two token prompts; the search term and the formatted tweets for the
  selection prompt; the selected tweet, the replies quoted, the retweeted original and the
  image descriptions for the reply prompt.
\<close>

datatype prompt =
    TokenPrompt jsstring
  | TrendingTokenPrompt jsstring
  | SelectionPrompt "jsstring option" "tweet list"
  | ReplyPrompt tweet "tweet list" "tweet option" "jsstring list"

text \<open>What the action handler passes to its callback: the success text or the error text.\<close>

datatype callback_response =
    Created jsval jsstring jsstring
  | Failed jsstring

datatype log_level = LOG | WARN | ERROR

text \<open>
  What an invocation does to the outside, in order: lines logged (through \<open>elizaLogger\<close>
  or \<open>console.error\<close>) and the calls whose arguments the claims are about.
\<close>

datatype event =
    Logged log_level jsstring
  | ConsoleError jsstring
  | AskedModel prompt
  | FetchSearchTweets "jsstring option"
  | SendTweet jsstring jsstring
  | DeployToken jsstring jsstring jsstring rat
  | GetTrendsUnawaited

text \<open>
  The collaborators, as the outcome of each call (\<open>Inl\<close>: the call throws, or the promise
  it returns rejects). Every call is taken to settle. A cache operation on a key either
  works on the stored value or throws what \<open>cache_get_error\<close>, \<open>cache_set_error\<close> give
  for that key. \<open>random_topic\<close> is the value of
  \<open>Math.floor(Math.random() * topics.length)\<close>, \<open>shuffle\<close> the outcome of
  \<open>.sort(() => Math.random() - 0.5)\<close>, \<open>JSON_parse\<close> the built-in parser.

  What is taken for granted: a thrown value is an \<open>Error\<close> object, so that
  \<open>error.message\<close> reads a string; \<open>elizaLogger\<close> and \<open>console.error\<close> do not throw;
  the timers a pass waits on (the five seconds before the search, \<open>wait()\<close> at its end)
  only pass time; \<open>stringToUuid\<close>, \<open>composeContext\<close> and the formatting of strings
  are pure and total, and are left out. \<open>generateMessageResponse\<close> is modelled by the
  \<open>text\<close> of the content it returns, \<open>sendTweet\<close> by the ids of the memories it
  returns, \<open>describeImage\<close> by the description of the photo at a URL.

  \<open>twitterClient.getTrends()\<close> is awaited by the generator and by the action, where a
  throw and a rejection are the same failure, but the pass calls it without \<open>await\<close> and
  drops the promise. There the two differ, so the world also says which one a failure
  of \<open>getTrends\<close> is: \<open>getTrends_throws\<close> holds when the call itself throws (as it does
  when \<open>twitterClient\<close> is undefined), and does not when the call hands back a promise
  that rejects later.
\<close>

record world =
  twitterUsername :: jsstring
  topics :: "jsstring list"
  random_topic :: nat
  shuffle :: "tweet list \<Rightarrow> tweet list"
  getTrends :: "js_error + TwitterTrend list"
  getTrends_throws :: bool
  generateText :: "prompt \<Rightarrow> js_error + jsstring"
  JSON_parse :: "jsstring \<Rightarrow> js_error + jsval"
  cache_get_error :: "jsstring \<Rightarrow> js_error option"
  cache_set_error :: "jsstring \<Rightarrow> js_error option"
  fetchSearchTweets :: "jsstring option \<Rightarrow> js_error + tweet list"
  fetchHomeTimeline :: "js_error + tweet list"
  cacheTimeline :: "tweet list \<Rightarrow> js_error + unit"
  ensureConnection :: "tweet \<Rightarrow> js_error + unit"
  buildConversationThread :: "tweet \<Rightarrow> js_error + unit"
  getTweet :: "jsstring \<Rightarrow> js_error + tweet"
  describeImage :: "jsstring \<Rightarrow> js_error + jsstring"
  composeState :: "tweet \<Rightarrow> js_error + unit"
  saveRequestMessage :: "tweet \<Rightarrow> js_error + unit"
  generateMessageResponse :: "prompt \<Rightarrow> js_error + jsstring option"
  sendTweet :: "jsstring \<Rightarrow> jsstring \<Rightarrow> js_error + jsstring list"
  updateRecentMessageState :: "js_error + unit"
  createMemory :: "jsstring \<Rightarrow> js_error + unit"
  evaluate :: "js_error + unit"
  processActions :: "js_error + unit"
  SolanaAgentKit_new :: "js_error + unit"
  deployToken :: "jsstring \<Rightarrow> jsstring \<Rightarrow> jsstring \<Rightarrow> rat \<Rightarrow> js_error + jsstring"
  Date_now :: rat

text \<open>
  The cache entries \<open>twitter/used_trends\<close> and \<open>twitter/launched_tokens\<close> (\<open>None\<close>: no
  entry), the in-memory set \<open>respondedTweets\<close>, and the events so far.
  \<open>cacheManager.get\<close> hands out a copy of the stored list.

  \<open>unhandled_rejections\<close> holds the reasons of the promises that rejected with nobody
  awaiting them and no handler attached. No \<open>catch\<close> block of the program sees such a
  rejection and nothing in the program logs it. What happens next is the host's choice
  and not in the source: Node since version 15 ends the process with exit code 1 unless
  the application has installed an \<open>unhandledRejection\<close> handler, at a moment the
  program does not control. A run of the model in which this list grows therefore
  describes the code only for a host that lets the process live.
\<close>

record state =
  used_trends :: "jsstring list option"
  launched_tokens :: "jsval list option"
  respondedTweets :: "jsstring set"
  trace :: "event list"
  unhandled_rejections :: "js_error list"

type_synonym 'a io = "state \<Rightarrow> (js_error + 'a) \<times> state"

definition resolve :: "'a \<Rightarrow> 'a io" where
  "resolve x s = (Inr x, s)"

definition reject :: "js_error \<Rightarrow> 'a io" where
  "reject e s = (Inl e, s)"

text \<open>\<open>const x = await m; k x\<close>: an error of \<open>m\<close> skips \<open>k\<close>.\<close>

definition await :: "'a io \<Rightarrow> ('a \<Rightarrow> 'b io) \<Rightarrow> 'b io" where
  "await m k s = (case m s of (Inl e, s') \<Rightarrow> (Inl e, s') | (Inr x, s') \<Rightarrow> k x s')"

text \<open>\<open>try { m } catch (error) { h error }\<close>\<close>

definition try_catch :: "'a io \<Rightarrow> (js_error \<Rightarrow> 'a io) \<Rightarrow> 'a io" where
  "try_catch m h s = (case m s of (Inl e, s') \<Rightarrow> h e s' | (Inr x, s') \<Rightarrow> (Inr x, s'))"

text \<open>A call to a collaborator, and one that the trace records.\<close>

definition call :: "js_error + 'a \<Rightarrow> 'a io" where
  "call r s = (r, s)"

definition emit :: "event \<Rightarrow> unit io" where
  "emit ev s = (Inr (), s\<lparr>trace := trace s @ [ev]\<rparr>)"

text \<open>
  A call \<open>f();\<close> of a promise-returning function as a statement of its own, neither
  awaited nor given a handler. If the call throws, the statement throws. If it hands
  back a promise, execution goes on at once; a promise that resolves is dropped, one
  that rejects is an unhandled rejection.
\<close>

definition unawaited :: "bool \<Rightarrow> js_error + 'a \<Rightarrow> unit io" where
  "unawaited throws r s =
     (case r of
        Inr x \<Rightarrow> (Inr (), s)
      | Inl e \<Rightarrow>
          if throws then (Inl e, s)
          else (Inr (), s\<lparr>unhandled_rejections := unhandled_rejections s @ [e]\<rparr>))"

definition elizaLogger :: "log_level \<Rightarrow> jsstring \<Rightarrow> unit io" where
  "elizaLogger l msg = emit (Logged l msg)"

definition console_error :: "jsstring \<Rightarrow> unit io" where
  "console_error msg = emit (ConsoleError msg)"

definition USED_TRENDS :: jsstring where
  "USED_TRENDS = js ''twitter/used_trends''"

definition LAUNCHED_TOKENS :: jsstring where
  "LAUNCHED_TOKENS = js ''twitter/launched_tokens''"

definition cache_get_used_trends :: "world \<Rightarrow> jsstring list option io" where
  "cache_get_used_trends w s =
     (case cache_get_error w USED_TRENDS of
        Some e \<Rightarrow> (Inl e, s)
      | None \<Rightarrow> (Inr (used_trends s), s))"

definition cache_set_used_trends :: "world \<Rightarrow> jsstring list \<Rightarrow> unit io" where
  "cache_set_used_trends w v s =
     (case cache_set_error w USED_TRENDS of
        Some e \<Rightarrow> (Inl e, s)
      | None \<Rightarrow> (Inr (), s\<lparr>used_trends := Some v\<rparr>))"

definition cache_get_launched_tokens :: "world \<Rightarrow> jsval list option io" where
  "cache_get_launched_tokens w s =
     (case cache_get_error w LAUNCHED_TOKENS of
        Some e \<Rightarrow> (Inl e, s)
      | None \<Rightarrow> (Inr (launched_tokens s), s))"

definition cache_set_launched_tokens :: "world \<Rightarrow> jsval list \<Rightarrow> unit io" where
  "cache_set_launched_tokens w v s =
     (case cache_set_error w LAUNCHED_TOKENS of
        Some e \<Rightarrow> (Inl e, s)
      | None \<Rightarrow> (Inr (), s\<lparr>launched_tokens := Some v\<rparr>))"

text \<open>
  \<open>cacheManager.set("twitter/tweet_generation_<id>.txt", ...)\<close>: the trace file is
  written or the call throws; no code of this repository reads it back.
\<close>

definition cache_set_tweet_generation :: "world \<Rightarrow> jsstring \<Rightarrow> unit io" where
  "cache_set_tweet_generation w i s =
     (case cache_set_error w (js ''twitter/tweet_generation_'' @ i @ js ''.txt'') of
        Some e \<Rightarrow> (Inl e, s)
      | None \<Rightarrow> (Inr (), s))"

text \<open>\<open>generateText({runtime, context: prompt, modelClass})\<close>\<close>

definition ask_model :: "world \<Rightarrow> prompt \<Rightarrow> jsstring io" where
  "ask_model w p = await (emit (AskedModel p)) (\<lambda>_. call (generateText w p))"

section \<open>The trend-to-token generator (\<open>TwitterSearchClient\<close>)\<close>

text \<open>The property reads of a check that has already read one property of the value.\<close>

definition read_prop :: "jsval \<Rightarrow> jsstring \<Rightarrow> jsval option" where
  "read_prop v k = (case get_prop v k of Inl e \<Rightarrow> None | Inr x \<Rightarrow> x)"

fun the_string :: "jsval option \<Rightarrow> jsstring" where
  "the_string (Some (JStr s)) = s"
| "the_string v = []"

fun the_number :: "jsval option \<Rightarrow> rat" where
  "the_number (Some (JNum n)) = n"
| "the_number v = 0"

definition validateTokenInfo :: "jsval \<Rightarrow> js_error + bool" where
  "validateTokenInfo tokenInfo =
     (case get_prop tokenInfo (js ''name'') of
        Inl e \<Rightarrow> Inl e
      | Inr n \<Rightarrow>
          Inr (is_string n \<and>
               length (the_string n) \<le> 32 \<and>
               is_string (read_prop tokenInfo (js ''ticker'')) \<and>
               length (the_string (read_prop tokenInfo (js ''ticker''))) \<ge> 3 \<and>
               length (the_string (read_prop tokenInfo (js ''ticker''))) \<le> 5 \<and>
               alphabetic (the_string (read_prop tokenInfo (js ''ticker''))) \<and>
               is_string (read_prop tokenInfo (js ''description'')) \<and>
               is_string (read_prop tokenInfo (js ''imagePrompt''))))"

definition cacheUsedTrend :: "world \<Rightarrow> jsstring \<Rightarrow> unit io" where
  "cacheUsedTrend w trend =
     await (cache_get_used_trends w) (\<lambda>got.
       cache_set_used_trends w (or_empty got @ [trend]))"

definition isTopicUsed :: "world \<Rightarrow> jsstring \<Rightarrow> bool io" where
  "isTopicUsed w trend =
     await (cache_get_used_trends w) (\<lambda>got. resolve (trend \<in> set (or_empty got)))"

text \<open>
  The \<open>for (const trend of trends)\<close> loop with its \<open>break\<close>: the value of
  \<open>selectedTrend\<close> when the loop is left, \<open>None\<close> for \<open>null\<close>.
\<close>

fun select_loop :: "world \<Rightarrow> TwitterTrend list \<Rightarrow> jsstring option io" where
  "select_loop w [] s = (Inr None, s)"
| "select_loop w (trend # rest) s =
     (case isTopicUsed w (name trend) s of
        (Inl e, s') \<Rightarrow> (Inl e, s')
      | (Inr isUsed, s') \<Rightarrow>
          if \<not> isUsed then (Inr (Some (name trend)), s') else select_loop w rest s')"

text \<open>\<open>tokenInfo.ticker = tokenInfo.ticker.toUpperCase()\<close>\<close>

definition upcase_ticker :: "jsval \<Rightarrow> js_error + jsval" where
  "upcase_ticker tokenInfo =
     (case get_prop tokenInfo (js ''ticker'') of
        Inl e \<Rightarrow> Inl e
      | Inr (Some (JStr t)) \<Rightarrow> set_prop tokenInfo (js ''ticker'') (JStr (toUpperCase t))
      | Inr v \<Rightarrow> Inl (TypeError (js ''toUpperCase is not a function'')))"

text \<open>
  The inner \<open>try\<close> block: \<open>None\<close> where the source returns \<open>null\<close> from the function,
  \<open>Some tokenInfo\<close> where control leaves the block normally.
\<close>

definition parse_token :: "world \<Rightarrow> jsstring \<Rightarrow> jsstring \<Rightarrow> jsval option io" where
  "parse_token w response selectedTrend =
     try_catch
       (await (call (JSON_parse w response)) (\<lambda>parsed.
        await (call (set_prop parsed (js ''sourceTrend'') (JStr selectedTrend))) (\<lambda>tokenInfo.
        await (call (validateTokenInfo tokenInfo)) (\<lambda>valid.
        if \<not> valid then
          await (elizaLogger ERROR (js ''Invalid token info generated'')) (\<lambda>_. resolve None)
        else
          await (call (upcase_ticker tokenInfo)) (\<lambda>tokenInfo'. resolve (Some tokenInfo'))))))
       (\<lambda>error.
          await (elizaLogger ERROR (js ''Error parsing LLM response:'')) (\<lambda>_. resolve None))"

text \<open>The body of the outer \<open>try\<close> block.\<close>

definition generate_body :: "world \<Rightarrow> jsval option io" where
  "generate_body w =
     await (call (getTrends w)) (\<lambda>trends.
     await (elizaLogger LOG (js ''Fetched trends:'')) (\<lambda>_.
     await (select_loop w trends) (\<lambda>selectedTrend.
     if falsy selectedTrend then
       await (elizaLogger LOG (js ''No unused trends found'')) (\<lambda>_. resolve None)
     else
       await (ask_model w (TokenPrompt (the selectedTrend))) (\<lambda>response.
       await (parse_token w response (the selectedTrend)) (\<lambda>parsed.
       case parsed of
         None \<Rightarrow> resolve None
       | Some tokenInfo \<Rightarrow>
           await (cacheUsedTrend w (the selectedTrend)) (\<lambda>_. resolve (Some tokenInfo)))))))"

definition getTopTrendAndGenerateToken :: "world \<Rightarrow> jsval option io" where
  "getTopTrendAndGenerateToken w =
     try_catch (generate_body w)
       (\<lambda>error.
          await (elizaLogger ERROR (js ''Error generating token info:'')) (\<lambda>_. resolve None))"

section \<open>The \<open>CREATE_TRENDING_TOKEN\<close> action\<close>

text \<open>
  The action reads the trends through the \<open>TWITTER_CLIENT\<close> service of the runtime; the
  outcome of \<open>twitterClient.getTrends()\<close> is the \<open>getTrends\<close> of the world, a missing
  service being one of its errors. \<open>isTrendingTokenContent\<close> is the only check the
  handler makes on the parsed response.
\<close>

definition isTrendingTokenContent :: "jsval \<Rightarrow> js_error + bool" where
  "isTrendingTokenContent content =
     (case get_prop content (js ''trend'') of
        Inl e \<Rightarrow> Inl e
      | Inr t \<Rightarrow>
          Inr (is_string t \<and>
               is_string (read_prop content (js ''name'')) \<and>
               is_string (read_prop content (js ''symbol'')) \<and>
               is_string (read_prop content (js ''description'')) \<and>
               is_string (read_prop content (js ''uri'')) \<and>
               is_number (read_prop content (js ''decimals''))))"

text \<open>\<open>trends[0]?.name\<close>\<close>

fun top_trend_name :: "TwitterTrend list \<Rightarrow> jsstring option" where
  "top_trend_name [] = None"
| "top_trend_name (t # ts) = Some (name t)"

text \<open>\<open>{...tokenInfo, mintAddress: ..., timestamp: Date.now()}\<close>\<close>

fun own_properties :: "jsval \<Rightarrow> (jsstring \<times> jsval) list" where
  "own_properties (JObj kvs) = kvs"
| "own_properties v = []"

definition launched_record :: "jsval \<Rightarrow> jsstring \<Rightarrow> rat \<Rightarrow> jsval" where
  "launched_record tokenInfo mint now =
     JObj (AList.update (js ''timestamp'') (JNum now)
            (AList.update (js ''mintAddress'') (JStr mint) (own_properties tokenInfo)))"

text \<open>\<open>if (callback) callback(...)\<close>: the callback is optional and, as any call, may throw.\<close>

fun invoke :: "(callback_response \<Rightarrow> js_error + unit) option \<Rightarrow> callback_response \<Rightarrow> unit io" where
  "invoke None r = resolve ()"
| "invoke (Some callback) r = call (callback r)"

definition deploy :: "world \<Rightarrow> jsval \<Rightarrow> jsstring io" where
  "deploy w tokenInfo =
     await (emit (DeployToken (the_string (read_prop tokenInfo (js ''name'')))
                              (the_string (read_prop tokenInfo (js ''uri'')))
                              (the_string (read_prop tokenInfo (js ''symbol'')))
                              (the_number (read_prop tokenInfo (js ''decimals''))))) (\<lambda>_.
     call (deployToken w (the_string (read_prop tokenInfo (js ''name'')))
                         (the_string (read_prop tokenInfo (js ''uri'')))
                         (the_string (read_prop tokenInfo (js ''symbol'')))
                         (the_number (read_prop tokenInfo (js ''decimals'')))))"

text \<open>From the model's response to the end of the handler's \<open>try\<close> block.\<close>

definition deploy_and_record ::
  "world \<Rightarrow> (callback_response \<Rightarrow> js_error + unit) option \<Rightarrow> jsstring \<Rightarrow> jsstring list \<Rightarrow>
   jsstring \<Rightarrow> bool io" where
  "deploy_and_record w callback topTrend usedTrends content =
     await (call (JSON_parse w content)) (\<lambda>tokenInfo.
     await (call (isTrendingTokenContent tokenInfo)) (\<lambda>ok.
     if \<not> ok then reject (Error (js ''Invalid token content generated''))
     else
       await (call (SolanaAgentKit_new w)) (\<lambda>_.
       await (deploy w tokenInfo) (\<lambda>mint.
       await (cache_set_used_trends w (usedTrends @ [topTrend])) (\<lambda>_.
       await (cache_get_launched_tokens w) (\<lambda>launched.
       await (cache_set_launched_tokens w
                (or_empty launched @ [launched_record tokenInfo mint (Date_now w)])) (\<lambda>_.
       await (invoke callback (Created tokenInfo mint topTrend)) (\<lambda>_.
       resolve True))))))))"

text \<open>The body of the handler's \<open>try\<close> block.\<close>

definition handler_body ::
  "world \<Rightarrow> (callback_response \<Rightarrow> js_error + unit) option \<Rightarrow> bool io" where
  "handler_body w callback =
     await (call (getTrends w)) (\<lambda>trends.
     if falsy (top_trend_name trends) then reject (Error (js ''No trending topics found''))
     else
       await (cache_get_used_trends w) (\<lambda>got.
       if the (top_trend_name trends) \<in> set (or_empty got) then
         reject (Error (js ''Top trend already used''))
       else
         await (ask_model w (TrendingTokenPrompt (the (top_trend_name trends)))) (\<lambda>content.
         deploy_and_record w callback (the (top_trend_name trends)) (or_empty got) content)))"

definition handler ::
  "world \<Rightarrow> (callback_response \<Rightarrow> js_error + unit) option \<Rightarrow> bool io" where
  "handler w callback =
     await (elizaLogger LOG (js ''Starting CREATE_TRENDING_TOKEN handler...'')) (\<lambda>_.
     try_catch (handler_body w callback)
       (\<lambda>error.
          await (elizaLogger ERROR (js ''Error in CREATE_TRENDING_TOKEN:'')) (\<lambda>_.
          await (invoke callback (Failed (message error))) (\<lambda>_.
          resolve False))))"

section \<open>The search-and-reply engager\<close>

text \<open>
  The filter of the selection prompt: a tweet stays when \<open>thread.find\<close> finds no tweet of
  the thread whose \<open>username\<close> is the agent's.
\<close>

definition thread_filter :: "jsstring \<Rightarrow> tweet list \<Rightarrow> tweet list" where
  "thread_filter me pool =
     filter (\<lambda>tweet. List.find (\<lambda>t. username t = me) (thread tweet) = None) pool"

text \<open>\<open>slicedTweets.find(...)\<close> on the trimmed response.\<close>

definition matches :: "jsstring \<Rightarrow> tweet \<Rightarrow> bool" where
  "matches tweetId tweet =
     (str_includes (tweet_id tweet) tweetId \<or> str_includes tweetId (tweet_id tweet))"

definition find_selected :: "jsstring \<Rightarrow> tweet list \<Rightarrow> tweet option" where
  "find_selected tweetId slicedTweets = List.find (matches tweetId) slicedTweets"

text \<open>The loop over \<open>selectedTweet.photos\<close> and the one over \<open>responseMessages\<close>.\<close>

fun describe_photos :: "world \<Rightarrow> jsstring list \<Rightarrow> jsstring list io" where
  "describe_photos w [] s = (Inr [], s)"
| "describe_photos w (photo # rest) s =
     (case describeImage w photo of
        Inl e \<Rightarrow> (Inl e, s)
      | Inr description \<Rightarrow>
          (case describe_photos w rest s of
             (Inl e, s') \<Rightarrow> (Inl e, s')
           | (Inr ds, s') \<Rightarrow> (Inr (description # ds), s')))"

fun create_memories :: "world \<Rightarrow> jsstring list \<Rightarrow> unit io" where
  "create_memories w [] s = (Inr (), s)"
| "create_memories w (responseMessage # rest) s =
     (case createMemory w responseMessage of
        Inl e \<Rightarrow> (Inl e, s)
      | Inr u \<Rightarrow> create_memories w rest s)"

text \<open>
  The inner \<open>try\<close> block, which sends the reply. \<open>sendTweet\<close> is given the trimmed
  response of the selection call as the id to reply to.
\<close>

definition send_block :: "world \<Rightarrow> tweet \<Rightarrow> jsstring \<Rightarrow> jsstring \<Rightarrow> unit io" where
  "send_block w selectedTweet tweetId responseText =
     await (emit (SendTweet responseText tweetId)) (\<lambda>_.
     await (call (sendTweet w responseText tweetId)) (\<lambda>responseMessages.
     await (call (updateRecentMessageState w)) (\<lambda>_.
     await (create_memories w responseMessages) (\<lambda>_.
     await (call (updateRecentMessageState w)) (\<lambda>_.
     await (call (evaluate w)) (\<lambda>_.
     await (call (processActions w)) (\<lambda>_.
     await (\<lambda>s. (Inr (), s\<lparr>respondedTweets :=
                      insert (tweet_id selectedTweet) (respondedTweets s)\<rparr>)) (\<lambda>_.
     cache_set_tweet_generation w (tweet_id selectedTweet)))))))))"

text \<open>
  From the selected tweet to the end of the outer \<open>try\<close> block. The statement
  \<open>this.client.twitterClient.getTrends();\<close> is the event \<open>GetTrendsUnawaited\<close> followed
  by the outcome of the call.
\<close>

definition reply_to :: "world \<Rightarrow> tweet \<Rightarrow> jsstring \<Rightarrow> unit io" where
  "reply_to w selectedTweet tweetId =
     await (elizaLogger LOG (js ''Selected tweet to reply to:'')) (\<lambda>_.
     if username selectedTweet = twitterUsername w then
       elizaLogger LOG (js ''Skipping tweet from bot itself'')
     else
       await (call (ensureConnection w selectedTweet)) (\<lambda>_.
       await (call (buildConversationThread w selectedTweet)) (\<lambda>_.
       if tweet_text selectedTweet = [] then
         elizaLogger WARN (js ''Returning: No response text found'')
       else
         await (if isRetweet selectedTweet
                then await (call (getTweet w (tweet_id selectedTweet))) (\<lambda>t. resolve (Some t))
                else resolve None) (\<lambda>originalTweet.
         await (emit GetTrendsUnawaited) (\<lambda>_.
         await (unawaited (getTrends_throws w) (getTrends w)) (\<lambda>_.
         await (describe_photos w (photos selectedTweet)) (\<lambda>imageDescriptions.
         await (call (composeState w selectedTweet)) (\<lambda>_.
         await (call (saveRequestMessage w selectedTweet)) (\<lambda>_.
         await (call (generateMessageResponse w
                  (ReplyPrompt selectedTweet
                     (filter (\<lambda>reply. username reply \<noteq> twitterUsername w) (thread selectedTweet))
                     originalTweet imageDescriptions))) (\<lambda>responseText.
         if falsy responseText then
           elizaLogger WARN (js ''Returning: No response text found'')
         else
           await (elizaLogger LOG (js ''Bot would respond to tweet'')) (\<lambda>_.
           try_catch (send_block w selectedTweet tweetId (the responseText))
             (\<lambda>error. console_error (js ''Error sending response post'')))))))))))))"

text \<open>
  \<open>[...this.runtime.character.topics][Math.floor(Math.random() * topics.length)]\<close> and
  \<open>recentTweets.tweets.sort(() => Math.random() - 0.5).slice(0, 20)\<close>
\<close>

definition searchTerm :: "world \<Rightarrow> jsstring option" where
  "searchTerm w = at_index (topics w) (random_topic w)"

definition slicedTweets :: "world \<Rightarrow> tweet list \<Rightarrow> tweet list" where
  "slicedTweets w recentTweets = take 20 (shuffle w recentTweets)"

definition selection_prompt :: "world \<Rightarrow> tweet list \<Rightarrow> tweet list \<Rightarrow> prompt" where
  "selection_prompt w recentTweets homeTimeline =
     SelectionPrompt (searchTerm w)
       (thread_filter (twitterUsername w) (slicedTweets w recentTweets @ homeTimeline))"

text \<open>From the search results to the end of the outer \<open>try\<close> block.\<close>

definition select_and_reply :: "world \<Rightarrow> tweet list \<Rightarrow> unit io" where
  "select_and_reply w recentTweets =
     await (elizaLogger LOG (js ''Search tweets fetched'')) (\<lambda>_.
     await (call (fetchHomeTimeline w)) (\<lambda>homeTimeline.
     await (call (cacheTimeline w homeTimeline)) (\<lambda>_.
     if length (slicedTweets w recentTweets) = 0 then
       elizaLogger LOG (js ''No valid tweets found for the search term'')
     else
       await (ask_model w (selection_prompt w recentTweets homeTimeline)) (\<lambda>mostInterestingTweetResponse.
       case find_selected (trim mostInterestingTweetResponse) (slicedTweets w recentTweets) of
         None \<Rightarrow>
           await (elizaLogger WARN (js ''No matching tweet found for the selected ID'')) (\<lambda>_.
           elizaLogger LOG (js ''Selected tweet ID:''))
       | Some selectedTweet \<Rightarrow>
           reply_to w selectedTweet (trim mostInterestingTweetResponse)))))"

text \<open>The body of the outer \<open>try\<close> block.\<close>

definition engage_body :: "world \<Rightarrow> unit io" where
  "engage_body w =
     await (elizaLogger LOG (js ''Fetching search tweets'')) (\<lambda>_.
     await (emit (FetchSearchTweets (searchTerm w))) (\<lambda>_.
     await (call (fetchSearchTweets w (searchTerm w))) (\<lambda>recentTweets.
     select_and_reply w recentTweets)))"

definition engageWithSearchTerms :: "world \<Rightarrow> unit io" where
  "engageWithSearchTerms w =
     await (elizaLogger LOG (js ''Engaging with search terms'')) (\<lambda>_.
     try_catch (engage_body w)
       (\<lambda>error. console_error (js ''Error engaging with search terms:'')))"

section \<open>The engagement loop\<close>

text \<open>
  \<open>engageWithSearchTermsLoop\<close> calls \<open>engageWithSearchTerms()\<close>, which runs up to its
  first \<open>await\<close> (the five-second timer) and hands back a pending promise; \<open>.then()\<close>
  attaches nothing to it. The loop then draws \<open>randomMinutes\<close>, logs, and calls
  \<open>setTimeout\<close> for its next run. Time is in milliseconds. For the \<open>k\<close>-th call of the
  loop, \<open>floor_random_61 k\<close> is the value of \<open>Math.floor(Math.random() * (120 - 60 + 1))\<close>
  and \<open>settle_after k\<close> the time the pass started there takes, after its five-second
  wait, until its promise settles (the calls it awaits have no timeout).
\<close>

record timing =
  floor_random_61 :: "nat \<Rightarrow> nat"
  settle_after :: "nat \<Rightarrow> nat"

record pass_run =
  started :: nat
  settled :: nat
  rescheduled_at :: nat
  next_due :: nat

record loop_state =
  clock :: nat
  passes :: "pass_run list"
  timer :: "nat option"

definition engageWithSearchTermsLoop :: "timing \<Rightarrow> loop_state \<Rightarrow> loop_state" where
  "engageWithSearchTermsLoop tm ls =
     (let k = length (passes ls);
          randomMinutes = floor_random_61 tm k + 60
      in ls\<lparr>passes := passes ls @
                 [\<lparr>started = clock ls,
                   settled = clock ls + 5000 + settle_after tm k,
                   rescheduled_at = clock ls,
                   next_due = clock ls + randomMinutes * 60 * 1000\<rparr>],
             timer := Some (clock ls + randomMinutes * 60 * 1000)\<rparr>)"

text \<open>The pending timer fires: the clock moves to its due time.\<close>

definition timer_fires :: "loop_state \<Rightarrow> loop_state" where
  "timer_fires ls = (case timer ls of None \<Rightarrow> ls | Some due \<Rightarrow> ls\<lparr>clock := due, timer := None\<rparr>)"

text \<open>
  The loop never ends by itself; \<open>run_loop tm n\<close> is the state after its first \<open>n\<close>
  calls, the first one made by \<open>start\<close>.
\<close>

fun run_loop :: "timing \<Rightarrow> nat \<Rightarrow> loop_state \<Rightarrow> loop_state" where
  "run_loop tm 0 ls = ls"
| "run_loop tm (Suc n) ls = engageWithSearchTermsLoop tm (timer_fires (run_loop tm n ls))"

definition at_start :: "nat \<Rightarrow> loop_state" where
  "at_start t0 = \<lparr>clock = t0, passes = [], timer = None\<rparr>"

text \<open>
  Two passes overlap when each starts before the other has settled. The two readings of
  the specification's sentence: no two passes overlap; every \<open>setTimeout\<close> is called
  when the pass started by the same call of the loop has settled.
\<close>

definition overlap :: "pass_run \<Rightarrow> pass_run \<Rightarrow> bool" where
  "overlap p q = (started p < settled q \<and> started q < settled p)"

fun never_overlap :: "pass_run list \<Rightarrow> bool" where
  "never_overlap [] = True"
| "never_overlap (p # ps) = (list_all (\<lambda>q. \<not> overlap p q) ps \<and> never_overlap ps)"

definition rescheduled_after_pass :: "pass_run list \<Rightarrow> bool" where
  "rescheduled_after_pass ps = list_all (\<lambda>p. settled p \<le> rescheduled_at p) ps"

section \<open>Invariants named by the specification\<close>

text \<open>
  The validity invariant of a token concept, in the specification's words: the ticker
  (property \<open>tk\<close>: \<open>ticker\<close> for the generator, \<open>symbol\<close> for the action) is purely
  alphabetic with a length from 3 to 5, and the name has at most 32 code units.
\<close>

definition valid_concept :: "jsstring \<Rightarrow> jsval \<Rightarrow> bool" where
  "valid_concept tk concept =
     (is_string (read_prop concept tk) \<and>
      alphabetic (the_string (read_prop concept tk)) \<and>
      3 \<le> length (the_string (read_prop concept tk)) \<and>
      length (the_string (read_prop concept tk)) \<le> 5 \<and>
      is_string (read_prop concept (js ''name'')) \<and>
      length (the_string (read_prop concept (js ''name''))) \<le> 32)"

text \<open>
  The first trend, in list order, whose name is absent from the used-trends log.
\<close>

definition first_unused :: "state \<Rightarrow> TwitterTrend list \<Rightarrow> TwitterTrend option" where
  "first_unused s trends = List.find (\<lambda>t. name t \<notin> set (or_empty (used_trends s))) trends"

text \<open>
  A computation that, from every state, only appends events to the trace, each of them
  satisfying \<open>P\<close>.
\<close>

definition emits :: "(event \<Rightarrow> bool) \<Rightarrow> 'a io \<Rightarrow> bool" where
  "emits P m = (\<forall>s. \<exists>evs. trace (snd (m s)) = trace s @ evs \<and> list_all P evs)"

text \<open>The events a run has added to the trace.\<close>

definition new_events :: "state \<Rightarrow> state \<Rightarrow> event list" where
  "new_events s s' = drop (length (trace s)) (trace s')"


text \<open>
  A run of the generator that accepts a concept: the first trend absent from the log has a
  non-empty name, the model's response parses, the parsed value passes
  \<open>validateTokenInfo\<close>, and the cache takes the trend.
\<close>

definition accepted_run :: "world \<Rightarrow> state \<Rightarrow> jsval \<Rightarrow> state \<Rightarrow> bool" where
  "accepted_run w s concept s' = (\<exists>trends t response parsed tokenInfo.
      getTrends w = Inr trends \<and>
      cache_get_error w USED_TRENDS = None \<and> cache_set_error w USED_TRENDS = None \<and>
      List.find (\<lambda>t. name t \<notin> set (or_empty (used_trends s))) trends = Some t \<and>
      name t \<noteq> [] \<and>
      generateText w (TokenPrompt (name t)) = Inr response \<and>
      JSON_parse w response = Inr parsed \<and>
      set_prop parsed (js ''sourceTrend'') (JStr (name t)) = Inr tokenInfo \<and>
      validateTokenInfo tokenInfo = Inr True \<and> upcase_ticker tokenInfo = Inr concept \<and>
      s' = s\<lparr>used_trends := Some (or_empty (used_trends s) @ [name t]),
             trace := trace s @ [Logged LOG (js ''Fetched trends:''),
                                 AskedModel (TokenPrompt (name t))]\<rparr>)"

text \<open>
  The conditions under which the reply stage runs to its end for the selected tweet
  \<open>c\<close>: every guard passes (the author is not the agent, the tweet and the generated
  reply have text) and every call succeeds, the un-awaited \<open>getTrends()\<close> included; the
  tweet is no retweet.
\<close>

definition reply_succeeds :: "world \<Rightarrow> tweet \<Rightarrow> jsstring \<Rightarrow> jsstring \<Rightarrow> bool" where
  "reply_succeeds w c tweetId responseText =
     (username c \<noteq> twitterUsername w \<and>
      ensureConnection w c = Inr () \<and> buildConversationThread w c = Inr () \<and>
      tweet_text c \<noteq> [] \<and> \<not> isRetweet c \<and>
      (\<exists>trends. getTrends w = Inr trends) \<and>
      (\<exists>description. (\<forall>p\<in>set (photos c). describeImage w p = Inr (description p)) \<and>
         generateMessageResponse w
           (ReplyPrompt c (filter (\<lambda>reply. username reply \<noteq> twitterUsername w) (thread c))
              None (map description (photos c))) = Inr (Some responseText)) \<and>
      composeState w c = Inr () \<and> saveRequestMessage w c = Inr () \<and>
      responseText \<noteq> [] \<and>
      (\<exists>memories. sendTweet w responseText tweetId = Inr memories \<and>
         (\<forall>m\<in>set memories. createMemory w m = Inr ())) \<and>
      updateRecentMessageState w = Inr () \<and> evaluate w = Inr () \<and> processActions w = Inr () \<and>
      cache_set_error w (js ''twitter/tweet_generation_'' @ tweet_id c @ js ''.txt'') = None)"

section \<open>Example collaborators\<close>

text \<open>A world in which every call succeeds and returns nothing of interest.\<close>

definition quiet_world :: world where
  "quiet_world =
     \<lparr>twitterUsername = js ''agent'',
      topics = [js ''crypto''],
      random_topic = 0,
      shuffle = (\<lambda>tweets. tweets),
      getTrends = Inr [],
      getTrends_throws = False,
      generateText = (\<lambda>p. Inr []),
      JSON_parse = (\<lambda>text. Inl (Error (js ''Unexpected end of JSON input''))),
      cache_get_error = (\<lambda>key. None),
      cache_set_error = (\<lambda>key. None),
      fetchSearchTweets = (\<lambda>q. Inr []),
      fetchHomeTimeline = Inr [],
      cacheTimeline = (\<lambda>tweets. Inr ()),
      ensureConnection = (\<lambda>t. Inr ()),
      buildConversationThread = (\<lambda>t. Inr ()),
      getTweet = (\<lambda>i. Inl (Error (js ''not found''))),
      describeImage = (\<lambda>u. Inr []),
      composeState = (\<lambda>t. Inr ()),
      saveRequestMessage = (\<lambda>t. Inr ()),
      generateMessageResponse = (\<lambda>p. Inr None),
      sendTweet = (\<lambda>text inReplyTo. Inr []),
      updateRecentMessageState = Inr (),
      createMemory = (\<lambda>m. Inr ()),
      evaluate = Inr (),
      processActions = Inr (),
      SolanaAgentKit_new = Inr (),
      deployToken = (\<lambda>n u sy d. Inr (js ''mint'')),
      Date_now = 0\<rparr>"

definition empty_state :: state where
  "empty_state =
     \<lparr>used_trends = None, launched_tokens = None, respondedTweets = {}, trace = [],
      unhandled_rejections = []\<rparr>"

definition trend_named :: "jsstring \<Rightarrow> TwitterTrend" where
  "trend_named n = \<lparr>name = n, url = [], promoted_content = False, query = n, tweet_volume = None\<rparr>"

definition plain_tweet :: "jsstring \<Rightarrow> jsstring \<Rightarrow> tweet" where
  "plain_tweet i author = Tweet i author (js ''gm'') [] [] False"

definition concept_of :: "jsstring \<Rightarrow> jsstring \<Rightarrow> jsval" where
  "concept_of n tk =
     JObj [(js ''name'', JStr n), (js ''ticker'', JStr tk),
           (js ''description'', JStr (js ''d'')), (js ''imagePrompt'', JStr (js ''p''))]"

text \<open>A world with the given trend names, whose model response parses to the given value.\<close>

definition world_of :: "jsstring list \<Rightarrow> jsval \<Rightarrow> world" where
  "world_of trend_names parsed =
     quiet_world\<lparr>getTrends := Inr (map trend_named trend_names),
                 generateText := (\<lambda>p. Inr (js ''response'')),
                 JSON_parse := (\<lambda>text. Inr parsed)\<rparr>"

definition used_AI :: state where
  "used_AI = empty_state\<lparr>used_trends := Some [js ''AI'']\<rparr>"

text \<open>
  The content the action's model call is parsed to in the examples, with the given
  symbol, and a world whose top trend is AI and whose model response parses to it.
\<close>

definition action_content :: "jsstring \<Rightarrow> jsval" where
  "action_content ticker =
     JObj [(js ''trend'', JStr (js ''AI'')), (js ''name'', JStr (js ''X'')),
           (js ''symbol'', JStr ticker), (js ''description'', JStr (js ''d'')),
           (js ''uri'', JStr (js ''u'')), (js ''decimals'', JNum 9)]"

definition action_world :: "jsstring \<Rightarrow> world" where
  "action_world ticker = world_of [js ''AI''] (action_content ticker)"


text \<open>A world whose search returns the given tweets and whose selection call answers \<open>r\<close>.\<close>

definition search_world :: "tweet list \<Rightarrow> jsstring \<Rightarrow> world" where
  "search_world tweets r =
     quiet_world\<lparr>generateText := (\<lambda>p. Inr r),
                 fetchSearchTweets := (\<lambda>q. Inr tweets),
                 generateMessageResponse := (\<lambda>p. Inr (Some (js ''hello'')))\<rparr>"

text \<open>
  The first tweet ever posted has the id 20; ids of today have nineteen digits.
\<close>

definition old_tweet :: tweet where
  "old_tweet = plain_tweet (js ''20'') (js ''jack'')"

definition new_tweet :: tweet where
  "new_tweet = plain_tweet (js ''1850000000000000020'') (js ''alice'')"

definition own_thread_tweet :: tweet where
  "own_thread_tweet =
     Tweet (js ''7'') (js ''bob'') (js ''gm'') [plain_tweet (js ''8'') (js ''agent'')] [] False"

text \<open>
  A world with one search result, picked by the selection call, in which the call of
  \<open>getTrends\<close> fails: by throwing, or by handing back a promise that rejects.
\<close>

definition failing_world :: "bool \<Rightarrow> world" where
  "failing_world throws =
     (search_world [plain_tweet (js ''111'') (js ''alice'')] (js ''111''))
       \<lparr>getTrends := Inl (Error (js ''network'')), getTrends_throws := throws\<rparr>"

text \<open>
  Timings with the shortest delay of sixty minutes at every draw: one in which every
  pass settles a second after its five-second wait, and one in which every pass needs
  two hours.
\<close>

definition quick_timing :: timing where
  "quick_timing = \<lparr>floor_random_61 = (\<lambda>k. 0), settle_after = (\<lambda>k. 1000)\<rparr>"

definition slow_timing :: timing where
  "slow_timing = \<lparr>floor_random_61 = (\<lambda>k. 0), settle_after = (\<lambda>k. 7200000)\<rparr>"

section \<open>Evaluation rules\<close>

lemmas io_defs = await_def resolve_def reject_def call_def try_catch_def emit_def
  elizaLogger_def console_error_def ask_model_def

lemma js_Nil: "js [] = []" and js_Cons: "js (c # cs) = of_char c # js cs"
  by (simp_all add: js_def)

lemma example_world_simps:
  "cache_get_error (world_of ns p) k = None" "cache_set_error (world_of ns p) k = None"
  "getTrends (world_of ns p) = Inr (map trend_named ns)"
  "generateText (world_of ns p) q = Inr (js ''response'')"
  "JSON_parse (world_of ns p) r = Inr p"
  by (simp_all add: world_of_def quiet_world_def)

section \<open>Strings\<close>

lemma upper_unit_is_upper: "is_alpha c \<Longrightarrow> is_upper (upper_unit c)"
  unfolding is_alpha_def is_upper_def upper_unit_def
  by (auto simp: word_le_nat_alt unat_sub)

lemma toUpperCase_upper: "alphabetic t \<Longrightarrow> list_all is_upper (toUpperCase t)"
  by (simp add: alphabetic_def toUpperCase_def list_all_iff upper_unit_is_upper)

lemma is_upper_alpha: "is_upper c \<Longrightarrow> is_alpha c"
  by (simp add: is_upper_def is_alpha_def)

lemma toUpperCase_alphabetic: "alphabetic t \<Longrightarrow> alphabetic (toUpperCase t)"
  using toUpperCase_upper[of t]
  by (auto simp: alphabetic_def toUpperCase_def list_all_iff intro: is_upper_alpha)

lemma length_toUpperCase: "length (toUpperCase t) = length t"
  by (simp add: toUpperCase_def)

section \<open>The generator\<close>

lemma select_loop_ok:
  assumes "cache_get_error w USED_TRENDS = None"
  shows "select_loop w trends s =
    (Inr (map_option name (List.find (\<lambda>t. name t \<notin> set (or_empty (used_trends s))) trends)), s)"
  using assms by (induction trends) (simp_all add: isTopicUsed_def cache_get_used_trends_def io_defs)

lemma select_loop_err:
  assumes "cache_get_error w USED_TRENDS = Some e"
  shows "select_loop w trends s = (if trends = [] then Inr None else Inl e, s)"
  using assms by (cases trends) (simp_all add: isTopicUsed_def cache_get_used_trends_def io_defs)

lemma parse_token_cases:
  "(\<exists>ti. parse_token w r sel s = (Inr (Some ti), s) \<and>
      (\<exists>parsed tok. JSON_parse w r = Inr parsed \<and> set_prop parsed (js ''sourceTrend'') (JStr sel) = Inr tok
         \<and> validateTokenInfo tok = Inr True \<and> upcase_ticker tok = Inr ti))
   \<or> (\<exists>m. parse_token w r sel s = (Inr None, s\<lparr>trace := trace s @ [Logged ERROR m]\<rparr>))"
  unfolding parse_token_def
  by (auto simp: io_defs split: sum.splits prod.splits if_splits)

lemma cacheUsedTrend_cases:
  "cacheUsedTrend w sel s =
     (case cache_get_error w USED_TRENDS of
        Some e \<Rightarrow> (Inl e, s)
      | None \<Rightarrow> (case cache_set_error w USED_TRENDS of
           Some e \<Rightarrow> (Inl e, s)
         | None \<Rightarrow> (Inr (), s\<lparr>used_trends := Some (or_empty (used_trends s) @ [sel])\<rparr>)))"
  by (simp add: cacheUsedTrend_def cache_get_used_trends_def cache_set_used_trends_def io_defs
      split: option.splits)

text \<open>
  Every run of the body of the generator is of one of three kinds: it stops before the
  model is asked; it asks the model for the first unused trend and accepts nothing;
  or it accepts a concept.
\<close>

lemma generate_body_run:
  obtains
    (stopped) r evs where
      "generate_body w s = (r, s\<lparr>trace := trace s @ evs\<rparr>)"
      "\<forall>p. AskedModel p \<notin> set evs" "\<forall>c. r \<noteq> Inr (Some c)"
      "\<forall>trends t. getTrends w = Inr trends \<longrightarrow> cache_get_error w USED_TRENDS = None \<longrightarrow>
         List.find (\<lambda>t. name t \<notin> set (or_empty (used_trends s))) trends = Some t \<longrightarrow> name t = []"
  | (asked) trends t r evs where
      "getTrends w = Inr trends" "cache_get_error w USED_TRENDS = None"
      "List.find (\<lambda>t. name t \<notin> set (or_empty (used_trends s))) trends = Some t" "name t \<noteq> []"
      "generate_body w s =
         (r, s\<lparr>trace := trace s @ [Logged LOG (js ''Fetched trends:''),
                                   AskedModel (TokenPrompt (name t))] @ evs\<rparr>)"
      "\<forall>p. AskedModel p \<notin> set evs" "\<forall>c. r \<noteq> Inr (Some c)"
  | (accepted) c s' where
      "generate_body w s = (Inr (Some c), s')" "accepted_run w s c s'"
proof (cases "getTrends w")
  case (Inl e)
  show ?thesis
  proof (rule stopped)
    show "generate_body w s = (Inl e, s\<lparr>trace := trace s @ []\<rparr>)"
      using Inl by (simp add: generate_body_def io_defs)
  qed (simp_all add: Inl)
next
  case (Inr trends)
  let ?s1 = "s\<lparr>trace := trace s @ [Logged LOG (js ''Fetched trends:'')]\<rparr>"
  let ?none = "[Logged LOG (js ''Fetched trends:''), Logged LOG (js ''No unused trends found'')]"
  show ?thesis
  proof (cases "cache_get_error w USED_TRENDS")
    case (Some e)
    show ?thesis
    proof (cases trends)
      case Nil
      show ?thesis
      proof (rule stopped)
        have "select_loop w trends ?s1 = (Inr None, ?s1)"
          using select_loop_err[OF Some, of trends ?s1] Nil by simp
        then show "generate_body w s = (Inr None, s\<lparr>trace := trace s @ ?none\<rparr>)"
          using Inr by (simp add: generate_body_def io_defs)
      qed (simp_all add: Some)
    next
      case (Cons a list)
      show ?thesis
      proof (rule stopped)
        have "select_loop w trends ?s1 = (Inl e, ?s1)"
          using select_loop_err[OF Some, of trends ?s1] Cons by simp
        then show "generate_body w s = (Inl e, s\<lparr>trace := trace s @ [Logged LOG (js ''Fetched trends:'')]\<rparr>)"
          using Inr by (simp add: generate_body_def io_defs)
      qed (simp_all add: Some)
    qed
  next
    case None
    let ?found = "List.find (\<lambda>t. name t \<notin> set (or_empty (used_trends s))) trends"
    have sl: "select_loop w trends ?s1 = (Inr (map_option name ?found), ?s1)"
      using select_loop_ok[OF None, of trends ?s1] by simp
    show ?thesis
    proof (cases "falsy (map_option name ?found)")
      case True
      show ?thesis
      proof (rule stopped)
        show "generate_body w s = (Inr None, s\<lparr>trace := trace s @ ?none\<rparr>)"
          using Inr sl True by (simp add: generate_body_def io_defs)
        show "\<forall>trends t. getTrends w = Inr trends \<longrightarrow> cache_get_error w USED_TRENDS = None \<longrightarrow>
           List.find (\<lambda>t. name t \<notin> set (or_empty (used_trends s))) trends = Some t \<longrightarrow> name t = []"
          using True Inr by auto
      qed simp_all
    next
      case False
      then obtain t where t: "?found = Some t" and ne: "name t \<noteq> []"
        by (cases ?found) auto
      let ?s2 = "s\<lparr>trace := trace s @ [Logged LOG (js ''Fetched trends:''),
                                   AskedModel (TokenPrompt (name t))]\<rparr>"
      have asked': thesis if "generate_body w s = (r, ?s2\<lparr>trace := trace ?s2 @ evs\<rparr>)"
        "\<forall>p. AskedModel p \<notin> set evs" "\<forall>c. r \<noteq> Inr (Some c)" for r evs
        using asked[OF Inr None t ne, of r evs] that by simp
      show ?thesis
      proof (cases "generateText w (TokenPrompt (name t))")
        case (Inl e)
        have "generate_body w s = (Inl e, ?s2\<lparr>trace := trace ?s2 @ []\<rparr>)"
          using Inl Inr sl t ne by (simp add: generate_body_def io_defs)
        then show ?thesis by (rule asked') simp_all
      next
        case r: (Inr r)
        from parse_token_cases[of w r "name t" ?s2]
        show ?thesis
        proof
          assume "\<exists>ti. parse_token w r (name t) ?s2 = (Inr (Some ti), ?s2) \<and>
            (\<exists>parsed tok. JSON_parse w r = Inr parsed \<and> set_prop parsed (js ''sourceTrend'') (JStr (name t)) = Inr tok
              \<and> validateTokenInfo tok = Inr True \<and> upcase_ticker tok = Inr ti)"
          then obtain ti parsed tok where pt: "parse_token w r (name t) ?s2 = (Inr (Some ti), ?s2)"
            and facts: "JSON_parse w r = Inr parsed" "set_prop parsed (js ''sourceTrend'') (JStr (name t)) = Inr tok"
              "validateTokenInfo tok = Inr True" "upcase_ticker tok = Inr ti" by blast
          have gb: "generate_body w s = (case cacheUsedTrend w (name t) ?s2 of
               (Inl e, s'') \<Rightarrow> (Inl e, s'') | (Inr u, s'') \<Rightarrow> (Inr (Some ti), s''))"
            using Inr sl t ne r pt
            by (simp add: generate_body_def io_defs split: prod.splits sum.splits)
          show ?thesis
          proof (cases "cache_set_error w USED_TRENDS")
            case (Some e)
            with gb None have "generate_body w s = (Inl e, ?s2\<lparr>trace := trace ?s2 @ []\<rparr>)"
              by (simp add: cacheUsedTrend_cases)
            then show ?thesis by (rule asked') simp_all
          next
            case n2: None
            with gb None have g: "generate_body w s =
                (Inr (Some ti), ?s2\<lparr>used_trends := Some (or_empty (used_trends s) @ [name t])\<rparr>)"
              by (simp add: cacheUsedTrend_cases)
            have "accepted_run w s ti (?s2\<lparr>used_trends := Some (or_empty (used_trends s) @ [name t])\<rparr>)"
              unfolding accepted_run_def
              by (intro exI[of _ trends] exI[of _ t] exI[of _ r] exI[of _ parsed] exI[of _ tok])
                 (simp add: Inr None n2 t ne r facts)
            with g show ?thesis by (rule accepted)
          qed
        next
          assume "\<exists>m. parse_token w r (name t) ?s2 = (Inr None, ?s2\<lparr>trace := trace ?s2 @ [Logged ERROR m]\<rparr>)"
          then obtain m where "parse_token w r (name t) ?s2 = (Inr None, ?s2\<lparr>trace := trace ?s2 @ [Logged ERROR m]\<rparr>)" by blast
          then have "generate_body w s = (Inr None, ?s2\<lparr>trace := trace ?s2 @ [Logged ERROR m]\<rparr>)"
            using Inr sl t ne r by (simp add: generate_body_def io_defs)
          then show ?thesis by (rule asked') simp_all
        qed
      qed
    qed
  qed
qed

lemma accepted_runE [consumes 1, case_names run]:
  assumes "accepted_run w s c s'"
  obtains trends t response parsed tokenInfo where
      "getTrends w = Inr trends"
      "cache_get_error w USED_TRENDS = None" "cache_set_error w USED_TRENDS = None"
      "List.find (\<lambda>t. name t \<notin> set (or_empty (used_trends s))) trends = Some t"
      "name t \<noteq> []"
      "generateText w (TokenPrompt (name t)) = Inr response"
      "JSON_parse w response = Inr parsed"
      "set_prop parsed (js ''sourceTrend'') (JStr (name t)) = Inr tokenInfo"
      "validateTokenInfo tokenInfo = Inr True" "upcase_ticker tokenInfo = Inr c"
      "s' = s\<lparr>used_trends := Some (or_empty (used_trends s) @ [name t]),
             trace := trace s @ [Logged LOG (js ''Fetched trends:''),
                                 AskedModel (TokenPrompt (name t))]\<rparr>"
  using assms unfolding accepted_run_def by blast

lemma generate_run:
  obtains
    (stopped) evs where
      "getTopTrendAndGenerateToken w s = (Inr None, s\<lparr>trace := trace s @ evs\<rparr>)"
      "\<forall>p. AskedModel p \<notin> set evs"
      "\<forall>trends t. getTrends w = Inr trends \<longrightarrow> cache_get_error w USED_TRENDS = None \<longrightarrow>
         List.find (\<lambda>t. name t \<notin> set (or_empty (used_trends s))) trends = Some t \<longrightarrow> name t = []"
  | (asked) trends t evs where
      "getTrends w = Inr trends" "cache_get_error w USED_TRENDS = None"
      "List.find (\<lambda>t. name t \<notin> set (or_empty (used_trends s))) trends = Some t" "name t \<noteq> []"
      "getTopTrendAndGenerateToken w s =
         (Inr None, s\<lparr>trace := trace s @ [Logged LOG (js ''Fetched trends:''),
                                          AskedModel (TokenPrompt (name t))] @ evs\<rparr>)"
      "\<forall>p. AskedModel p \<notin> set evs"
  | (accepted) c s' where
      "getTopTrendAndGenerateToken w s = (Inr (Some c), s')" "accepted_run w s c s'"
proof (cases rule: generate_body_run[of w s])
  case (stopped r evs)
  show ?thesis
  proof (cases r)
    case (Inl e)
    show ?thesis
    proof (rule that(1))
      show "getTopTrendAndGenerateToken w s = (Inr None,
          s\<lparr>trace := trace s @ (evs @ [Logged ERROR (js ''Error generating token info:'')])\<rparr>)"
        using stopped(1) Inl by (simp add: getTopTrendAndGenerateToken_def io_defs)
      show "\<forall>p. AskedModel p \<notin> set (evs @ [Logged ERROR (js ''Error generating token info:'')])"
        using stopped(2) by simp
    qed (rule stopped(4))
  next
    case (Inr v)
    with stopped(3) have "v = None" by (cases v) auto
    show ?thesis
    proof (rule that(1))
      show "getTopTrendAndGenerateToken w s = (Inr None, s\<lparr>trace := trace s @ evs\<rparr>)"
        using stopped(1) Inr \<open>v = None\<close> by (simp add: getTopTrendAndGenerateToken_def io_defs)
    qed (rule stopped(2), rule stopped(4))
  qed
next
  case (asked trends t r evs)
  show ?thesis
  proof (cases r)
    case (Inl e)
    show ?thesis
    proof (rule that(2)[OF asked(1-4)])
      show "getTopTrendAndGenerateToken w s = (Inr None,
          s\<lparr>trace := trace s @ [Logged LOG (js ''Fetched trends:''), AskedModel (TokenPrompt (name t))]
             @ (evs @ [Logged ERROR (js ''Error generating token info:'')])\<rparr>)"
        using asked(5) Inl by (simp add: getTopTrendAndGenerateToken_def io_defs)
      show "\<forall>p. AskedModel p \<notin> set (evs @ [Logged ERROR (js ''Error generating token info:'')])"
        using asked(6) by simp
    qed
  next
    case (Inr v)
    with asked(7) have "v = None" by (cases v) auto
    show ?thesis
    proof (rule that(2)[OF asked(1-4)])
      show "getTopTrendAndGenerateToken w s = (Inr None,
          s\<lparr>trace := trace s @ [Logged LOG (js ''Fetched trends:''), AskedModel (TokenPrompt (name t))] @ evs\<rparr>)"
        using asked(5) Inr \<open>v = None\<close> by (simp add: getTopTrendAndGenerateToken_def io_defs)
    qed (rule asked(6))
  qed
next
  case (accepted c s')
  show ?thesis
  proof (rule that(3))
    show "getTopTrendAndGenerateToken w s = (Inr (Some c), s')"
      using accepted(1) by (simp add: getTopTrendAndGenerateToken_def io_defs)
  qed (rule accepted(2))
qed


lemma accepted_run_unique:
  assumes "accepted_run w s c s'"
  shows "getTopTrendAndGenerateToken w s = (Inr (Some c), s')"
  using assms
proof (cases rule: accepted_runE)
  case (run trends t r parsed tok)
  let ?s1 = "s\<lparr>trace := trace s @ [Logged LOG (js ''Fetched trends:'')]\<rparr>"
  let ?s2 = "s\<lparr>trace := trace s @ [Logged LOG (js ''Fetched trends:''),
                                   AskedModel (TokenPrompt (name t))]\<rparr>"
  have sl: "select_loop w trends ?s1 = (Inr (Some (name t)), ?s1)"
    using select_loop_ok[OF run(2), of trends ?s1] run(4) by simp
  have pt: "parse_token w r (name t) ?s2 = (Inr (Some c), ?s2)"
    using run(7-10) by (simp add: parse_token_def io_defs)
  have cu: "cacheUsedTrend w (name t) ?s2 = (Inr (), s')"
    using run(2,3,11) by (simp add: cacheUsedTrend_cases)
  have "generate_body w s = (Inr (Some c), s')"
    using run(1,5,6) sl pt cu by (simp add: generate_body_def io_defs)
  then show ?thesis by (simp add: getTopTrendAndGenerateToken_def io_defs)
qed

lemma validate_object:
  "validateTokenInfo (JObj kvs) = Inr (valid_concept (js ''ticker'') (JObj kvs) \<and>
       is_string (map_of kvs (js ''description'')) \<and> is_string (map_of kvs (js ''imagePrompt'')))"
  by (auto simp: validateTokenInfo_def valid_concept_def read_prop_def)

text \<open>What an accepted concept looks like.\<close>

lemma accepted_concept:
  assumes "accepted_run w s c s'"
  obtains kvs sel tk where
    "c = JObj (AList.update (js ''ticker'') (JStr (toUpperCase tk))
               (AList.update (js ''sourceTrend'') (JStr sel) kvs))"
    "map_of kvs (js ''ticker'') = Some (JStr tk)" "alphabetic tk" "3 \<le> length tk" "length tk \<le> 5"
    "is_string (map_of kvs (js ''name''))" "length (the_string (map_of kvs (js ''name''))) \<le> 32"
    "sel \<notin> set (or_empty (used_trends s))" "sel \<noteq> []"
    "used_trends s' = Some (or_empty (used_trends s) @ [sel])"
  using assms
proof (cases rule: accepted_runE)
  case (run trends t r parsed tok)
  note f = run(4,5,8,9,10,11)
  from f(1) have unused: "name t \<notin> set (or_empty (used_trends s))"
    by (auto simp: find_Some_iff)
  show ?thesis
  proof (cases parsed)
    case (JObj kvs)
    with f(3) have tok: "tok = JObj (AList.update (js ''sourceTrend'') (JStr (name t)) kvs)" by simp
    from f(4) tok have v0: "valid_concept (js ''ticker'') (JObj kvs)"
      by (simp add: validate_object valid_concept_def read_prop_def update_conv' js_Cons js_Nil)
    then obtain tk where tk: "map_of kvs (js ''ticker'') = Some (JStr tk)"
      by (cases "map_of kvs (js ''ticker'')" rule: is_string.cases)
         (auto simp: valid_concept_def read_prop_def)
    from v0 tk have v: "alphabetic tk" "3 \<le> length tk" "length tk \<le> 5"
      and n: "is_string (map_of kvs (js ''name''))" "length (the_string (map_of kvs (js ''name''))) \<le> 32"
      by (simp_all add: valid_concept_def read_prop_def)
    from f(5) tok tk have c: "c = JObj (AList.update (js ''ticker'') (JStr (toUpperCase tk))
         (AList.update (js ''sourceTrend'') (JStr (name t)) kvs))"
      by (simp add: upcase_ticker_def update_conv' js_Cons js_Nil)
    show ?thesis
      by (rule that[OF c tk v n unused f(2)]) (simp add: f(6))
  next
    case (JArr xs)
    with f(3,4) show ?thesis by (auto simp: validateTokenInfo_def)
  qed (use f(3) in simp_all)
qed

lemma accepted_valid:
  assumes "accepted_run w s c s'"
  shows "valid_concept (js ''ticker'') c"
    and "list_all is_upper (the_string (read_prop c (js ''ticker'')))"
  using assms
  by (auto elim!: accepted_concept
      simp: valid_concept_def read_prop_def update_conv' js_Cons js_Nil
          toUpperCase_alphabetic toUpperCase_upper length_toUpperCase)

section \<open>What a computation adds to the trace\<close>

lemma emitsI:
  assumes "\<And>s. \<exists>evs. trace (snd (m s)) = trace s @ evs \<and> list_all P evs"
  shows "emits P m"
  using assms by (simp add: emits_def)

lemma emitsD:
  assumes "emits P m"
  obtains evs where "trace (snd (m s)) = trace s @ evs" "list_all P evs"
  using assms unfolding emits_def by blast

lemma emits_silent:
  assumes "\<And>s. trace (snd (m s)) = trace s"
  shows "emits P m"
  by (rule emitsI) (simp add: assms)

lemma emits_resolve: "emits P (resolve x)"
  by (rule emits_silent) (simp add: resolve_def)

lemma emits_reject: "emits P (reject e)"
  by (rule emits_silent) (simp add: reject_def)

lemma emits_call: "emits P (call r)"
  by (rule emits_silent) (simp add: call_def)

lemma emits_emit: "P ev \<Longrightarrow> emits P (emit ev)"
  by (rule emitsI) (simp add: emit_def)

lemma emits_elizaLogger: "P (Logged l msg) \<Longrightarrow> emits P (elizaLogger l msg)"
  by (simp add: elizaLogger_def emits_emit)

lemma emits_console_error: "P (ConsoleError msg) \<Longrightarrow> emits P (console_error msg)"
  by (simp add: console_error_def emits_emit)

lemma emits_await:
  assumes "emits P m" and "\<And>x. emits P (k x)"
  shows "emits P (await m k)"
proof (rule emitsI)
  fix s
  from assms(1) obtain evs where m: "trace (snd (m s)) = trace s @ evs" "list_all P evs"
    by (rule emitsD)
  show "\<exists>evs. trace (snd (await m k s)) = trace s @ evs \<and> list_all P evs"
  proof (cases "m s")
    case (Pair r s')
    show ?thesis
    proof (cases r)
      case (Inl e)
      with Pair m show ?thesis by (auto simp: await_def)
    next
      case (Inr x)
      from assms(2)[of x] obtain evs' where k: "trace (snd (k x s')) = trace s' @ evs'" "list_all P evs'"
        by (rule emitsD)
      from Pair Inr m k have "trace (snd (await m k s)) = trace s @ (evs @ evs')"
        by (simp add: await_def)
      moreover have "list_all P (evs @ evs')" using m(2) k(2) by simp
      ultimately show ?thesis by blast
    qed
  qed
qed

lemma emits_try_catch:
  assumes "emits P m" and "\<And>e. emits P (h e)"
  shows "emits P (try_catch m h)"
proof (rule emitsI)
  fix s
  from assms(1) obtain evs where m: "trace (snd (m s)) = trace s @ evs" "list_all P evs"
    by (rule emitsD)
  show "\<exists>evs. trace (snd (try_catch m h s)) = trace s @ evs \<and> list_all P evs"
  proof (cases "m s")
    case (Pair r s')
    show ?thesis
    proof (cases r)
      case (Inr x)
      with Pair m show ?thesis by (auto simp: try_catch_def)
    next
      case (Inl e)
      from assms(2)[of e] obtain evs' where h: "trace (snd (h e s')) = trace s' @ evs'" "list_all P evs'"
        by (rule emitsD)
      from Pair Inl m h have "trace (snd (try_catch m h s)) = trace s @ (evs @ evs')"
        by (simp add: try_catch_def)
      moreover have "list_all P (evs @ evs')" using m(2) h(2) by simp
      ultimately show ?thesis by blast
    qed
  qed
qed

lemma emits_if:
  assumes "c \<Longrightarrow> emits P a" and "\<not> c \<Longrightarrow> emits P b"
  shows "emits P (if c then a else b)"
  using assms by simp

lemma emits_ask_model: "P (AskedModel p) \<Longrightarrow> emits P (ask_model w p)"
  unfolding ask_model_def by (intro emits_await emits_emit emits_call)


lemma emits_case_option:
  assumes "emits P a" and "\<And>x. emits P (f x)"
  shows "emits P (case v of None \<Rightarrow> a | Some x \<Rightarrow> f x)"
  using assms by (cases v) simp_all

lemma emits_mono:
  assumes "emits P m" and "\<And>ev. P ev \<Longrightarrow> Q ev"
  shows "emits Q m"
proof (rule emitsI)
  fix s
  from assms(1) obtain evs where "trace (snd (m s)) = trace s @ evs" "list_all P evs"
    by (rule emitsD)
  with assms(2) show "\<exists>evs. trace (snd (m s)) = trace s @ evs \<and> list_all Q evs"
    by (auto simp: list_all_iff)
qed

section \<open>The action handler\<close>

text \<open>
  The handler returns what the body of its \<open>try\<close> block returns; when the body throws,
  it logs the error and reports it through the callback, and an error of that call is
  not caught.
\<close>

lemma handler_cases:
  "handler w callback s =
     (case handler_body w callback
             (s\<lparr>trace := trace s @ [Logged LOG (js ''Starting CREATE_TRENDING_TOKEN handler...'')]\<rparr>) of
        (Inr b, s') \<Rightarrow> (Inr b, s')
      | (Inl e, s') \<Rightarrow>
          (case invoke callback (Failed (message e))
                  (s'\<lparr>trace := trace s' @ [Logged ERROR (js ''Error in CREATE_TRENDING_TOKEN:'')]\<rparr>) of
             (Inl e', s'') \<Rightarrow> (Inl e', s'')
           | (Inr u, s'') \<Rightarrow> (Inr False, s'')))"
  by (simp add: handler_def io_defs split: prod.splits sum.splits)

lemma invoke_state: "snd (invoke callback r s) = s"
  by (cases callback) (simp_all add: io_defs)

lemma invoke_eq: "invoke callback r s = (x, s') \<Longrightarrow> s' = s"
  using invoke_state[of callback r s] by simp

lemma emits_cache:
  "emits P (cache_get_used_trends w)" "emits P (cache_set_used_trends w v)"
  "emits P (cache_get_launched_tokens w)" "emits P (cache_set_launched_tokens w l)"
  by (rule emits_silent,
      simp add: cache_get_used_trends_def cache_set_used_trends_def
        cache_get_launched_tokens_def cache_set_launched_tokens_def split: option.splits)+

lemma emits_invoke: "emits P (invoke callback r)"
  by (rule emits_silent) (simp add: invoke_state)

lemma emits_deploy:
  assumes "\<And>n u sy d. P (DeployToken n u sy d)"
  shows "emits P (deploy w tokenInfo)"
  unfolding deploy_def by (intro emits_await emits_emit emits_call assms)

text \<open>After the model has answered, the handler asks it nothing more.\<close>

lemma emits_deploy_and_record:
  "emits (\<lambda>ev. \<forall>p. ev \<noteq> AskedModel p) (deploy_and_record w callback topTrend usedTrends content)"
  unfolding deploy_and_record_def
  by (intro emits_await emits_if emits_call emits_reject emits_resolve emits_deploy
        emits_cache emits_invoke)
     simp_all

text \<open>
  The used-trends log changes only when the parsed response has passed
  \<open>isTrendingTokenContent\<close> and the token has been deployed.
\<close>

lemma deploy_and_record_log:
  assumes "used_trends (snd (deploy_and_record w callback topTrend usedTrends content s)) \<noteq> used_trends s"
  shows "\<exists>tokenInfo mint. JSON_parse w content = Inr tokenInfo \<and>
           isTrendingTokenContent tokenInfo = Inr True \<and>
           deployToken w (the_string (read_prop tokenInfo (js ''name'')))
                         (the_string (read_prop tokenInfo (js ''uri'')))
                         (the_string (read_prop tokenInfo (js ''symbol'')))
                         (the_number (read_prop tokenInfo (js ''decimals''))) = Inr mint \<and>
           used_trends (snd (deploy_and_record w callback topTrend usedTrends content s)) =
             Some (usedTrends @ [topTrend])"
proof (cases "JSON_parse w content")
  case (Inl e)
  with assms show ?thesis by (simp add: deploy_and_record_def io_defs)
next
  case (Inr tokenInfo)
  note parsed = Inr
  show ?thesis
  proof (cases "isTrendingTokenContent tokenInfo")
    case (Inl e)
    with assms parsed show ?thesis by (simp add: deploy_and_record_def io_defs)
  next
    case (Inr ok)
    note checked = Inr
    show ?thesis
    proof (cases ok)
      case False
      with assms parsed checked show ?thesis by (simp add: deploy_and_record_def io_defs)
    next
      case True
      show ?thesis
      proof (cases "SolanaAgentKit_new w")
        case (Inl e)
        with assms parsed checked True show ?thesis by (simp add: deploy_and_record_def io_defs)
      next
        case (Inr u)
        note kit = Inr
        show ?thesis
        proof (cases "deployToken w (the_string (read_prop tokenInfo (js ''name'')))
                         (the_string (read_prop tokenInfo (js ''uri'')))
                         (the_string (read_prop tokenInfo (js ''symbol'')))
                         (the_number (read_prop tokenInfo (js ''decimals'')))")
          case (Inl e)
          with assms parsed checked True kit show ?thesis
            by (simp add: deploy_and_record_def deploy_def io_defs)
        next
          case (Inr mint)
          have "used_trends (snd (deploy_and_record w callback topTrend usedTrends content s)) =
              used_trends s \<or>
              used_trends (snd (deploy_and_record w callback topTrend usedTrends content s)) =
              Some (usedTrends @ [topTrend])"
            using parsed checked True kit Inr
            by (auto simp: deploy_and_record_def deploy_def io_defs
                cache_set_used_trends_def cache_get_launched_tokens_def
                cache_set_launched_tokens_def
                split: option.splits prod.splits sum.splits dest!: invoke_eq)
          with assms parsed checked True Inr show ?thesis by simp
        qed
      qed
    qed
  qed
qed

text \<open>
  Every run of the body of the handler either throws before the model is asked, leaving
  the state as it was, or asks the model for the top trend, which is not in the log.
\<close>

lemma handler_body_run:
  obtains
    (stopped) e where "handler_body w callback s = (Inl e, s)"
  | (asked) trends topTrend where
      "getTrends w = Inr trends" "top_trend_name trends = Some topTrend" "topTrend \<noteq> []"
      "cache_get_error w USED_TRENDS = None"
      "topTrend \<notin> set (or_empty (used_trends s))"
      "handler_body w callback s =
         (case generateText w (TrendingTokenPrompt topTrend) of
            Inl e \<Rightarrow> (Inl e, s\<lparr>trace := trace s @ [AskedModel (TrendingTokenPrompt topTrend)]\<rparr>)
          | Inr content \<Rightarrow>
              deploy_and_record w callback topTrend (or_empty (used_trends s)) content
                (s\<lparr>trace := trace s @ [AskedModel (TrendingTokenPrompt topTrend)]\<rparr>))"
proof (cases "getTrends w")
  case (Inl e)
  then have "handler_body w callback s = (Inl e, s)"
    by (simp add: handler_body_def io_defs)
  then show ?thesis by (rule stopped)
next
  case (Inr trends)
  show ?thesis
  proof (cases "falsy (top_trend_name trends)")
    case True
    with Inr have "handler_body w callback s = (Inl (Error (js ''No trending topics found'')), s)"
      by (simp add: handler_body_def io_defs)
    then show ?thesis by (rule stopped)
  next
    case False
    then obtain topTrend where top: "top_trend_name trends = Some topTrend" "topTrend \<noteq> []"
      by (cases "top_trend_name trends") auto
    show ?thesis
    proof (cases "cache_get_error w USED_TRENDS")
      case (Some e)
      with Inr top have "handler_body w callback s = (Inl e, s)"
        by (simp add: handler_body_def io_defs cache_get_used_trends_def)
      then show ?thesis by (rule stopped)
    next
      case None
      show ?thesis
      proof (cases "topTrend \<in> set (or_empty (used_trends s))")
        case True
        with Inr top None
        have "handler_body w callback s = (Inl (Error (js ''Top trend already used'')), s)"
          by (simp add: handler_body_def io_defs cache_get_used_trends_def)
        then show ?thesis by (rule stopped)
      next
        case False
        show ?thesis
        proof (rule asked[OF Inr top None False])
          show "handler_body w callback s =
            (case generateText w (TrendingTokenPrompt topTrend) of
               Inl e \<Rightarrow> (Inl e, s\<lparr>trace := trace s @ [AskedModel (TrendingTokenPrompt topTrend)]\<rparr>)
             | Inr content \<Rightarrow>
                 deploy_and_record w callback topTrend (or_empty (used_trends s)) content
                   (s\<lparr>trace := trace s @ [AskedModel (TrendingTokenPrompt topTrend)]\<rparr>))"
            using Inr top None False
            by (simp add: handler_body_def io_defs cache_get_used_trends_def split: sum.splits)
        qed
      qed
    qed
  qed
qed

text \<open>
  What the handler does beyond the body of its \<open>try\<close> block changes neither cache entry
  and asks the model nothing.
\<close>

lemma handler_state:
  "\<exists>evs. snd (handler w callback s) =
      (snd (handler_body w callback
         (s\<lparr>trace := trace s @ [Logged LOG (js ''Starting CREATE_TRENDING_TOKEN handler...'')]\<rparr>)))
      \<lparr>trace := trace (snd (handler_body w callback
         (s\<lparr>trace := trace s @ [Logged LOG (js ''Starting CREATE_TRENDING_TOKEN handler...'')]\<rparr>))) @ evs\<rparr>
    \<and> (\<forall>p. AskedModel p \<notin> set evs)"
proof -
  let ?s1 = "s\<lparr>trace := trace s @ [Logged LOG (js ''Starting CREATE_TRENDING_TOKEN handler...'')]\<rparr>"
  obtain r s' where b: "handler_body w callback ?s1 = (r, s')"
    by (cases "handler_body w callback ?s1")
  show ?thesis
  proof (cases r)
    case (Inr v)
    with b have "snd (handler w callback s) = s'\<lparr>trace := trace s' @ []\<rparr>"
      by (simp add: handler_cases)
    with b show ?thesis by (intro exI[of _ "[]"]) simp
  next
    case (Inl e)
    let ?s2 = "s'\<lparr>trace := trace s' @ [Logged ERROR (js ''Error in CREATE_TRENDING_TOKEN:'')]\<rparr>"
    have "snd (handler w callback s) = snd (invoke callback (Failed (message e)) ?s2)"
      using b Inl by (simp add: handler_cases split: prod.splits sum.splits)
    then have "snd (handler w callback s) = ?s2"
      by (simp add: invoke_state)
    with b show ?thesis
      by (intro exI[of _ "[Logged ERROR (js ''Error in CREATE_TRENDING_TOKEN:'')]"]) simp
  qed
qed

text \<open>The handler asks the model only for the top trend, and only when it is not in the log.\<close>

lemma handler_asks_for_unused_top_trend:
  assumes "AskedModel (TrendingTokenPrompt x) \<in> set (new_events s (snd (handler w callback s)))"
  shows "x \<notin> set (or_empty (used_trends s)) \<and>
         (\<exists>trends. getTrends w = Inr trends \<and> top_trend_name trends = Some x)"
proof -
  let ?start = "Logged LOG (js ''Starting CREATE_TRENDING_TOKEN handler...'')"
  let ?s1 = "s\<lparr>trace := trace s @ [?start]\<rparr>"
  from handler_state[of w callback s] obtain evs where
    hs: "snd (handler w callback s) =
      (snd (handler_body w callback ?s1))\<lparr>trace := trace (snd (handler_body w callback ?s1)) @ evs\<rparr>"
    and evs: "\<forall>p. AskedModel p \<notin> set evs" by blast
  show ?thesis
  proof (cases rule: handler_body_run[of w callback ?s1])
    case (stopped e)
    with hs evs assms show ?thesis by (simp add: new_events_def)
  next
    case (asked trends topTrend)
    let ?s2 = "?s1\<lparr>trace := trace ?s1 @ [AskedModel (TrendingTokenPrompt topTrend)]\<rparr>"
    have "\<exists>evs'. trace (snd (handler_body w callback ?s1)) = trace ?s2 @ evs' \<and>
        (\<forall>p. AskedModel p \<notin> set evs')"
    proof (cases "generateText w (TrendingTokenPrompt topTrend)")
      case (Inl e)
      with asked(6) show ?thesis by simp
    next
      case (Inr content)
      obtain evs' where "trace (snd (deploy_and_record w callback topTrend
            (or_empty (used_trends ?s1)) content ?s2)) = trace ?s2 @ evs'"
        "list_all (\<lambda>ev. \<forall>p. ev \<noteq> AskedModel p) evs'"
        by (rule emitsD[OF emits_deploy_and_record])
      with asked(6) Inr show ?thesis by (auto simp: list_all_iff)
    qed
    then obtain evs' where
      "trace (snd (handler_body w callback ?s1)) = trace ?s2 @ evs'" "\<forall>p. AskedModel p \<notin> set evs'"
      by blast
    with hs evs assms have "x = topTrend"
      by (auto simp: new_events_def)
    with asked(1,2,5) show ?thesis by simp
  qed
qed

text \<open>
  The handler changes the used-trends log only by appending the top trend, after the
  parsed response has passed \<open>isTrendingTokenContent\<close> and the token has been deployed.
\<close>

lemma handler_log_changes:
  assumes "used_trends (snd (handler w callback s)) \<noteq> used_trends s"
  shows "\<exists>trends topTrend content tokenInfo.
           getTrends w = Inr trends \<and> top_trend_name trends = Some topTrend \<and>
           topTrend \<notin> set (or_empty (used_trends s)) \<and>
           generateText w (TrendingTokenPrompt topTrend) = Inr content \<and>
           JSON_parse w content = Inr tokenInfo \<and>
           isTrendingTokenContent tokenInfo = Inr True \<and>
           used_trends (snd (handler w callback s)) = Some (or_empty (used_trends s) @ [topTrend])"
proof -
  let ?s1 = "s\<lparr>trace := trace s @ [Logged LOG (js ''Starting CREATE_TRENDING_TOKEN handler...'')]\<rparr>"
  from handler_state[of w callback s]
  have u: "used_trends (snd (handler w callback s)) = used_trends (snd (handler_body w callback ?s1))"
    by auto
  show ?thesis
  proof (cases rule: handler_body_run[of w callback ?s1])
    case (stopped e)
    with u assms show ?thesis by simp
  next
    case (asked trends topTrend)
    let ?s2 = "?s1\<lparr>trace := trace ?s1 @ [AskedModel (TrendingTokenPrompt topTrend)]\<rparr>"
    show ?thesis
    proof (cases "generateText w (TrendingTokenPrompt topTrend)")
      case (Inl e)
      with asked(6) u assms show ?thesis by simp
    next
      case (Inr content)
      with asked(6) u assms
      have "used_trends (snd (deploy_and_record w callback topTrend
            (or_empty (used_trends s)) content ?s2)) \<noteq> used_trends ?s2"
        by simp
      from deploy_and_record_log[OF this] obtain tokenInfo where
        "JSON_parse w content = Inr tokenInfo" "isTrendingTokenContent tokenInfo = Inr True"
        "used_trends (snd (deploy_and_record w callback topTrend
            (or_empty (used_trends s)) content ?s2)) = Some (or_empty (used_trends s) @ [topTrend])"
        by blast
      with asked(1,2,5,6) Inr u show ?thesis by auto
    qed
  qed
qed

section \<open>Trend selection\<close>

text \<open>The selection of the generator.\<close>

lemma generator_selects_first_unused:
  assumes "getTrends w = Inr trends"
    and "cache_get_error w USED_TRENDS = None"
    and "first_unused s trends = Some t"
    and "name t \<noteq> []"
  shows "(\<exists>evs. new_events s (snd (getTopTrendAndGenerateToken w s)) =
            [Logged LOG (js ''Fetched trends:''), AskedModel (TokenPrompt (name t))] @ evs \<and>
            (\<forall>p. AskedModel p \<notin> set evs))
         \<and> name t \<notin> set (or_empty (used_trends s))
         \<and> (\<exists>i<length trends. trends ! i = t \<and>
               (\<forall>j<i. name (trends ! j) \<in> set (or_empty (used_trends s))))
         \<and> (\<forall>w' s' x. AskedModel (TokenPrompt x) \<in> set (new_events s' (snd (getTopTrendAndGenerateToken w' s')))
               \<longrightarrow> x \<notin> set (or_empty (used_trends s')))"
proof (intro conjI allI impI)
  note f = assms(3)[unfolded first_unused_def]
  show "\<exists>evs. new_events s (snd (getTopTrendAndGenerateToken w s)) =
            [Logged LOG (js ''Fetched trends:''), AskedModel (TokenPrompt (name t))] @ evs \<and>
            (\<forall>p. AskedModel p \<notin> set evs)"
  proof (cases rule: generate_run[of w s])
    case (stopped evs)
    with assms(1,2,4) f show ?thesis by blast
  next
    case (asked trends' t' evs)
    with assms(1) f have "t' = t" by simp
    with asked(5,6) show ?thesis by (auto simp: new_events_def)
  next
    case (accepted c s')
    from accepted(2) show ?thesis
    proof (cases rule: accepted_runE)
      case (run trends' t' r parsed tok)
      with assms(1) f have "t' = t" by simp
      with run(11) accepted(1) show ?thesis by (simp add: new_events_def)
    qed
  qed
  show "name t \<notin> set (or_empty (used_trends s))"
    using f by (auto simp: find_Some_iff)
  show "\<exists>i<length trends. trends ! i = t \<and>
               (\<forall>j<i. name (trends ! j) \<in> set (or_empty (used_trends s)))"
    using f by (auto simp: find_Some_iff)
next
  fix w' s' x
  assume a: "AskedModel (TokenPrompt x) \<in> set (new_events s' (snd (getTopTrendAndGenerateToken w' s')))"
  show "x \<notin> set (or_empty (used_trends s'))"
  proof (cases rule: generate_run[of w' s'])
    case (stopped evs)
    with a show ?thesis by (simp add: new_events_def)
  next
    case (asked trends' t' evs)
    with a have "x = name t'" by (auto simp: new_events_def)
    with asked(3) show ?thesis by (auto simp: find_Some_iff)
  next
    case (accepted c s'')
    from accepted(2) show ?thesis
    proof (cases rule: accepted_runE)
      case (run trends' t' r parsed tok)
      with a accepted(1) have "x = name t'" by (auto simp: new_events_def)
      with run(4) show ?thesis by (auto simp: find_Some_iff)
    qed
  qed
qed

text \<open>
  C1 (amended). Whenever the trends are fetched, the cache can be read, and the first trend
  of the list whose name is absent from the used-trends log has a non-empty name, the
  generator asks the model for a token for exactly that trend: its name is not in the
  log, and every trend before it in the list is. In no run does the generator ask the
  model for a trend that is in the log. The action handler asks the model only for the
  top trend of the list, and never when that trend is in the log.
\<close>

theorem first_unused_trend_is_selected:
  assumes "getTrends w = Inr trends"
    and "cache_get_error w USED_TRENDS = None"
    and "first_unused s trends = Some t"
    and "name t \<noteq> []"
  shows "((\<exists>evs. new_events s (snd (getTopTrendAndGenerateToken w s)) =
            [Logged LOG (js ''Fetched trends:''), AskedModel (TokenPrompt (name t))] @ evs \<and>
            (\<forall>p. AskedModel p \<notin> set evs))
         \<and> name t \<notin> set (or_empty (used_trends s))
         \<and> (\<exists>i<length trends. trends ! i = t \<and>
               (\<forall>j<i. name (trends ! j) \<in> set (or_empty (used_trends s))))
         \<and> (\<forall>w' s' x. AskedModel (TokenPrompt x) \<in> set (new_events s' (snd (getTopTrendAndGenerateToken w' s')))
               \<longrightarrow> x \<notin> set (or_empty (used_trends s'))))
         \<and> (\<forall>w' callback s' x.
             AskedModel (TrendingTokenPrompt x) \<in> set (new_events s' (snd (handler w' callback s')))
               \<longrightarrow> x \<notin> set (or_empty (used_trends s')) \<and>
                   (\<exists>trends. getTrends w' = Inr trends \<and> top_trend_name trends = Some x))"
proof (rule conjI)
  show "(\<exists>evs. new_events s (snd (getTopTrendAndGenerateToken w s)) =
            [Logged LOG (js ''Fetched trends:''), AskedModel (TokenPrompt (name t))] @ evs \<and>
            (\<forall>p. AskedModel p \<notin> set evs))
         \<and> name t \<notin> set (or_empty (used_trends s))
         \<and> (\<exists>i<length trends. trends ! i = t \<and>
               (\<forall>j<i. name (trends ! j) \<in> set (or_empty (used_trends s))))
         \<and> (\<forall>w' s' x. AskedModel (TokenPrompt x) \<in> set (new_events s' (snd (getTopTrendAndGenerateToken w' s')))
               \<longrightarrow> x \<notin> set (or_empty (used_trends s')))"
    using assms by (rule generator_selects_first_unused)
  show "(\<forall>w' callback s' x.
                AskedModel (TrendingTokenPrompt x) \<in> set (new_events s' (snd (handler w' callback s')))
                  \<longrightarrow> x \<notin> set (or_empty (used_trends s')) \<and>
                      (\<exists>trends. getTrends w' = Inr trends \<and> top_trend_name trends = Some x))"
    by (intro allI impI) (rule handler_asks_for_unused_top_trend)
qed

lemma first_unused_example:
  "first_unused used_AI (map trend_named [js ''AI'', js ''AI'', js ''Web3'']) = Some (trend_named (js ''Web3''))"
  by (simp add: first_unused_def used_AI_def empty_state_def trend_named_def js_Cons js_Nil)

lemma Web3_not_empty: "name (trend_named (js ''Web3'')) \<noteq> []"
  by (simp add: trend_named_def js_Cons)

lemma run_xyz:
  "getTopTrendAndGenerateToken (world_of [js ''AI'', js ''AI'', js ''Web3''] (concept_of (js ''X'') (js ''xyz''))) used_AI =
     (Inr (Some (JObj [(js ''name'', JStr (js ''X'')), (js ''ticker'', JStr (js ''XYZ'')),
           (js ''description'', JStr (js ''d'')), (js ''imagePrompt'', JStr (js ''p'')),
           (js ''sourceTrend'', JStr (js ''Web3''))])),
      used_AI\<lparr>used_trends := Some [js ''AI'', js ''Web3''],
               trace := [Logged LOG (js ''Fetched trends:''), AskedModel (TokenPrompt (js ''Web3''))]\<rparr>)"
proof (rule accepted_run_unique)
  let ?w = "world_of [js ''AI'', js ''AI'', js ''Web3''] (concept_of (js ''X'') (js ''xyz''))"
  let ?tok = "JObj [(js ''name'', JStr (js ''X'')), (js ''ticker'', JStr (js ''xyz'')),
           (js ''description'', JStr (js ''d'')), (js ''imagePrompt'', JStr (js ''p'')),
           (js ''sourceTrend'', JStr (js ''Web3''))]"
  have v: "validateTokenInfo ?tok = Inr True"
    by (simp add: validate_object valid_concept_def read_prop_def alphabetic_def is_alpha_def js_Cons js_Nil)
  have u: "upcase_ticker ?tok = Inr (JObj [(js ''name'', JStr (js ''X'')), (js ''ticker'', JStr (js ''XYZ'')),
           (js ''description'', JStr (js ''d'')), (js ''imagePrompt'', JStr (js ''p'')),
           (js ''sourceTrend'', JStr (js ''Web3''))])"
    by (simp add: upcase_ticker_def toUpperCase_def upper_unit_def js_Cons js_Nil)
  have sp: "set_prop (concept_of (js ''X'') (js ''xyz'')) (js ''sourceTrend'') (JStr (name (trend_named (js ''Web3'')))) = Inr ?tok"
    by (simp add: concept_of_def trend_named_def js_Cons js_Nil)
  show "accepted_run ?w used_AI (JObj [(js ''name'', JStr (js ''X'')), (js ''ticker'', JStr (js ''XYZ'')),
           (js ''description'', JStr (js ''d'')), (js ''imagePrompt'', JStr (js ''p'')),
           (js ''sourceTrend'', JStr (js ''Web3''))])
      (used_AI\<lparr>used_trends := Some [js ''AI'', js ''Web3''],
               trace := [Logged LOG (js ''Fetched trends:''), AskedModel (TokenPrompt (js ''Web3''))]\<rparr>)"
    unfolding accepted_run_def
    apply (rule exI[of _ "map trend_named [js ''AI'', js ''AI'', js ''Web3'']"])
    apply (rule exI[of _ "trend_named (js ''Web3'')"])
    apply (rule exI[of _ "js ''response''"])
    apply (rule exI[of _ "concept_of (js ''X'') (js ''xyz'')"])
    apply (rule exI[of _ ?tok])
    apply (simp add: example_world_simps first_unused_example[unfolded first_unused_def]
        Web3_not_empty sp v u)
    apply (simp add: used_AI_def empty_state_def trend_named_def js_Cons js_Nil)
    done
qed

lemma example_state_simps:
  "trace used_AI = []" "used_trends used_AI = Some [js ''AI'']" "name (trend_named n) = n"
  by (simp_all add: used_AI_def empty_state_def trend_named_def)

text \<open>
  The scenario of the specification: trends AI, AI, Web3 with AI in the log; the model is
  asked for Web3.
\<close>

theorem first_unused_trend_is_selected_witness:
  "new_events used_AI (snd (getTopTrendAndGenerateToken
      (world_of [js ''AI'', js ''AI'', js ''Web3''] (concept_of (js ''X'') (js ''xyz''))) used_AI)) =
     [Logged LOG (js ''Fetched trends:''), AskedModel (TokenPrompt (js ''Web3''))]
   \<and> js ''Web3'' \<notin> set (or_empty (used_trends used_AI))"
  using first_unused_trend_is_selected[OF example_world_simps(3) example_world_simps(1)
      first_unused_example Web3_not_empty, of "concept_of (js ''X'') (js ''xyz'')"]
  by (simp add: run_xyz new_events_def example_state_simps)

text \<open>
  C1 as stated fails when the first unused trend has the empty name: \<open>!selectedTrend\<close>
  is then true, and the generator reports that no unused trend was found.
\<close>

theorem empty_trend_name_selects_nothing:
  "first_unused empty_state (map trend_named [[], js ''Web3'']) = Some (trend_named [])
   \<and> getTopTrendAndGenerateToken (world_of [[], js ''Web3''] (concept_of (js ''X'') (js ''xyz''))) empty_state =
     (Inr None, empty_state\<lparr>trace := [Logged LOG (js ''Fetched trends:''),
                                       Logged LOG (js ''No unused trends found'')]\<rparr>)"
proof -
  let ?w = "world_of [[], js ''Web3''] (concept_of (js ''X'') (js ''xyz''))"
  let ?s1 = "empty_state\<lparr>trace := trace empty_state @ [Logged LOG (js ''Fetched trends:'')]\<rparr>"
  have f: "first_unused empty_state (map trend_named [[], js ''Web3'']) = Some (trend_named [])"
    by (simp add: first_unused_def empty_state_def trend_named_def)
  have sl: "select_loop ?w (map trend_named [[], js ''Web3'']) ?s1 = (Inr (Some []), ?s1)"
    using select_loop_ok[of ?w "map trend_named [[], js ''Web3'']" ?s1]
    by (simp add: example_world_simps empty_state_def trend_named_def)
  have "generate_body ?w empty_state =
     (Inr None, empty_state\<lparr>trace := [Logged LOG (js ''Fetched trends:''),
                                       Logged LOG (js ''No unused trends found'')]\<rparr>)"
    using sl by (simp add: generate_body_def io_defs example_world_simps empty_state_def)
  then show ?thesis using f
    by (simp add: getTopTrendAndGenerateToken_def io_defs)
qed

section \<open>Acceptance and normalisation of a concept\<close>

text \<open>
  C8. When the model's response parses to an object whose name has at most 32 code units,
  whose ticker is alphabetic (in either case) with 3 to 5 code units, and whose
  description and image prompt are strings, the generator returns that object with the
  source trend set and the ticker in upper case; and the ticker of every concept the
  generator returns is a string of upper-case letters.
\<close>

theorem ticker_normalized_to_upper_case:
  assumes "getTrends w = Inr trends"
    and "cache_get_error w USED_TRENDS = None" and "cache_set_error w USED_TRENDS = None"
    and "first_unused s trends = Some t" and "name t \<noteq> []"
    and "generateText w (TokenPrompt (name t)) = Inr response"
    and "JSON_parse w response = Inr (JObj kvs)"
    and "map_of kvs (js ''name'') = Some (JStr n)" and "length n \<le> 32"
    and "map_of kvs (js ''ticker'') = Some (JStr tk)"
    and "alphabetic tk" and "3 \<le> length tk" and "length tk \<le> 5"
    and "map_of kvs (js ''description'') = Some (JStr d)"
    and "map_of kvs (js ''imagePrompt'') = Some (JStr p)"
  shows "fst (getTopTrendAndGenerateToken w s) =
           Inr (Some (JObj (AList.update (js ''ticker'') (JStr (toUpperCase tk))
                       (AList.update (js ''sourceTrend'') (JStr (name t)) kvs))))
         \<and> list_all is_upper (toUpperCase tk)
         \<and> (\<forall>w' s' c. fst (getTopTrendAndGenerateToken w' s') = Inr (Some c) \<longrightarrow>
               is_string (read_prop c (js ''ticker'')) \<and>
               list_all is_upper (the_string (read_prop c (js ''ticker''))))"
proof (intro conjI allI impI)
  let ?tok = "JObj (AList.update (js ''sourceTrend'') (JStr (name t)) kvs)"
  let ?c = "JObj (AList.update (js ''ticker'') (JStr (toUpperCase tk))
                       (AList.update (js ''sourceTrend'') (JStr (name t)) kvs))"
  let ?s' = "s\<lparr>used_trends := Some (or_empty (used_trends s) @ [name t]),
             trace := trace s @ [Logged LOG (js ''Fetched trends:''),
                                 AskedModel (TokenPrompt (name t))]\<rparr>"
  have v: "validateTokenInfo ?tok = Inr True"
    using assms(8-15)
    by (simp add: validate_object valid_concept_def read_prop_def update_conv' js_Cons js_Nil)
  have u: "upcase_ticker ?tok = Inr ?c"
    using assms(10) by (simp add: upcase_ticker_def update_conv' js_Cons js_Nil)
  have "accepted_run w s ?c ?s'"
    unfolding accepted_run_def
    apply (rule exI[of _ trends], rule exI[of _ t], rule exI[of _ response])
    apply (rule exI[of _ "JObj kvs"], rule exI[of _ ?tok])
    using assms(1-7) v u by (simp add: first_unused_def)
  then show "fst (getTopTrendAndGenerateToken w s) = Inr (Some ?c)"
    by (simp add: accepted_run_unique)
  show "list_all is_upper (toUpperCase tk)"
    using assms(11) by (rule toUpperCase_upper)
next
  fix w' s' c
  assume a: "fst (getTopTrendAndGenerateToken w' s') = Inr (Some c)"
  then obtain s'' where acc: "accepted_run w' s' c s''"
    by (cases rule: generate_run[of w' s']) auto
  from accepted_valid[OF acc]
  show "is_string (read_prop c (js ''ticker''))"
    and "list_all is_upper (the_string (read_prop c (js ''ticker'')))"
    by (simp_all add: valid_concept_def)
qed

text \<open>The scenario of the specification: name X, ticker xyz, description d, image prompt p.\<close>

theorem ticker_normalized_to_upper_case_witness:
  "fst (getTopTrendAndGenerateToken (world_of [js ''AI'', js ''AI'', js ''Web3''] (concept_of (js ''X'') (js ''xyz''))) used_AI) =
     Inr (Some (JObj [(js ''name'', JStr (js ''X'')), (js ''ticker'', JStr (js ''XYZ'')),
           (js ''description'', JStr (js ''d'')), (js ''imagePrompt'', JStr (js ''p'')),
           (js ''sourceTrend'', JStr (js ''Web3''))]))
   \<and> list_all is_upper (js ''XYZ'')"
proof -
  let ?w = "world_of [js ''AI'', js ''AI'', js ''Web3''] (concept_of (js ''X'') (js ''xyz''))"
  let ?kvs = "[(js ''name'', JStr (js ''X'')), (js ''ticker'', JStr (js ''xyz'')),
           (js ''description'', JStr (js ''d'')), (js ''imagePrompt'', JStr (js ''p''))]"
  have h7: "JSON_parse ?w (js ''response'') = Inr (JObj ?kvs)"
    by (simp add: example_world_simps concept_of_def)
  have h8: "map_of ?kvs (js ''name'') = Some (JStr (js ''X''))" "length (js ''X'') \<le> 32"
    by (simp_all add: js_Cons js_Nil)
  have h10: "map_of ?kvs (js ''ticker'') = Some (JStr (js ''xyz''))"
    by (simp add: js_Cons js_Nil)
  have h11: "alphabetic (js ''xyz'')" "3 \<le> length (js ''xyz'')" "length (js ''xyz'') \<le> 5"
    by (simp_all add: alphabetic_def is_alpha_def js_Cons js_Nil)
  have h14: "map_of ?kvs (js ''description'') = Some (JStr (js ''d''))"
    "map_of ?kvs (js ''imagePrompt'') = Some (JStr (js ''p''))"
    by (simp_all add: js_Cons js_Nil)
  from ticker_normalized_to_upper_case[OF example_world_simps(3) example_world_simps(1)
      example_world_simps(2) first_unused_example Web3_not_empty example_world_simps(4) h7 h8 h10 h11 h14]
  show ?thesis
    by (simp add: js_Cons js_Nil toUpperCase_def upper_unit_def example_state_simps)
qed

text \<open>
  C3. When the parsed response fails \<open>validateTokenInfo\<close>, the generator logs the
  failure, returns \<open>null\<close> and leaves the used-trends log as it was; and whenever a run
  of the generator changes the log, it has returned a concept that satisfies the validity
  invariant. A run of the action handler changes the log only by appending the top
  trend, once the parsed response has passed \<open>isTrendingTokenContent\<close>.
\<close>

theorem invalid_concept_leaves_log_unchanged:
  assumes "getTrends w = Inr trends"
    and "cache_get_error w USED_TRENDS = None"
    and "first_unused s trends = Some t"
    and "name t \<noteq> []"
    and "generateText w (TokenPrompt (name t)) = Inr response"
    and "JSON_parse w response = Inr parsed"
    and "set_prop parsed (js ''sourceTrend'') (JStr (name t)) = Inr tokenInfo"
    and "validateTokenInfo tokenInfo = Inr False"
  shows "getTopTrendAndGenerateToken w s =
           (Inr None, s\<lparr>trace := trace s @ [Logged LOG (js ''Fetched trends:''),
                                              AskedModel (TokenPrompt (name t)),
                                              Logged ERROR (js ''Invalid token info generated'')]\<rparr>)
         \<and> used_trends (snd (getTopTrendAndGenerateToken w s)) = used_trends s
         \<and> (\<forall>w' s'. used_trends (snd (getTopTrendAndGenerateToken w' s')) \<noteq> used_trends s' \<longrightarrow>
               (\<exists>c. fst (getTopTrendAndGenerateToken w' s') = Inr (Some c) \<and>
                    valid_concept (js ''ticker'') c))
         \<and> (\<forall>w' callback s'. used_trends (snd (handler w' callback s')) \<noteq> used_trends s' \<longrightarrow>
               (\<exists>trends topTrend content tokenInfo.
                  getTrends w' = Inr trends \<and> top_trend_name trends = Some topTrend \<and>
                  topTrend \<notin> set (or_empty (used_trends s')) \<and>
                  generateText w' (TrendingTokenPrompt topTrend) = Inr content \<and>
                  JSON_parse w' content = Inr tokenInfo \<and>
                  isTrendingTokenContent tokenInfo = Inr True \<and>
                  used_trends (snd (handler w' callback s')) =
                    Some (or_empty (used_trends s') @ [topTrend])))"
proof -
  let ?s1 = "s\<lparr>trace := trace s @ [Logged LOG (js ''Fetched trends:'')]\<rparr>"
  let ?s2 = "s\<lparr>trace := trace s @ [Logged LOG (js ''Fetched trends:''),
                                    AskedModel (TokenPrompt (name t))]\<rparr>"
  let ?s3 = "s\<lparr>trace := trace s @ [Logged LOG (js ''Fetched trends:''),
                                    AskedModel (TokenPrompt (name t)),
                                    Logged ERROR (js ''Invalid token info generated'')]\<rparr>"
  have sl: "select_loop w trends ?s1 = (Inr (Some (name t)), ?s1)"
    using select_loop_ok[OF assms(2), of trends ?s1] assms(3) by (simp add: first_unused_def)
  have pt: "parse_token w response (name t) ?s2 = (Inr None, ?s3)"
    using assms(6-8) by (simp add: parse_token_def io_defs)
  have gb: "generate_body w s = (Inr None, ?s3)"
    using assms(1,4,5) sl pt by (simp add: generate_body_def io_defs)
  then have 1: "getTopTrendAndGenerateToken w s = (Inr None, ?s3)"
    by (simp add: getTopTrendAndGenerateToken_def io_defs)
  have 3: "\<exists>c. fst (getTopTrendAndGenerateToken w' s') = Inr (Some c) \<and> valid_concept (js ''ticker'') c"
    if "used_trends (snd (getTopTrendAndGenerateToken w' s')) \<noteq> used_trends s'" for w' s'
    using that by (cases rule: generate_run[of w' s']) (auto intro: accepted_valid)
  from 1 3 handler_log_changes show ?thesis by simp
qed

text \<open>The scenario of the specification: a ticker of TOOLONG.\<close>

theorem invalid_concept_leaves_log_unchanged_witness:
  "getTopTrendAndGenerateToken (world_of [js ''AI'', js ''AI'', js ''Web3''] (concept_of (js ''X'') (js ''TOOLONG''))) used_AI =
     (Inr None, used_AI\<lparr>trace := [Logged LOG (js ''Fetched trends:''),
                                  AskedModel (TokenPrompt (js ''Web3'')),
                                  Logged ERROR (js ''Invalid token info generated'')]\<rparr>)
   \<and> used_trends (snd (getTopTrendAndGenerateToken (world_of [js ''AI'', js ''AI'', js ''Web3''] (concept_of (js ''X'') (js ''TOOLONG''))) used_AI)) = Some [js ''AI'']"
proof -
  let ?tok = "JObj [(js ''name'', JStr (js ''X'')), (js ''ticker'', JStr (js ''TOOLONG'')),
           (js ''description'', JStr (js ''d'')), (js ''imagePrompt'', JStr (js ''p'')),
           (js ''sourceTrend'', JStr (js ''Web3''))]"
  have h7: "set_prop (concept_of (js ''X'') (js ''TOOLONG'')) (js ''sourceTrend'')
      (JStr (name (trend_named (js ''Web3'')))) = Inr ?tok"
    by (simp add: concept_of_def example_state_simps js_Cons js_Nil)
  have h8: "validateTokenInfo ?tok = Inr False"
    by (simp add: validate_object valid_concept_def read_prop_def js_Cons js_Nil)
  from invalid_concept_leaves_log_unchanged[OF example_world_simps(3) example_world_simps(1)
      first_unused_example Web3_not_empty example_world_simps(4) example_world_simps(5) h7 h8]
  show ?thesis
    by (simp add: example_state_simps)
qed

section \<open>The validity invariant\<close>

text \<open>
  C2 holds for the generator: every concept it returns satisfies the validity invariant.
\<close>

lemma generator_concepts_are_valid:
  assumes "fst (getTopTrendAndGenerateToken w s) = Inr (Some c)"
  shows "valid_concept (js ''ticker'') c"
proof -
  from assms obtain s' where "accepted_run w s c s'"
    by (cases rule: generate_run[of w s]) auto
  then show ?thesis by (rule accepted_valid)
qed

text \<open>
  C2 (the action): \<open>isTrendingTokenContent\<close> checks types only. With a model response
  whose symbol is TOOLONG, which violates the validity invariant, the handler deploys
  the token, records the trend as used and returns \<open>true\<close>.
\<close>

theorem handler_deploys_invalid_symbol:
  "\<not> valid_concept (js ''symbol'') (action_content (js ''TOOLONG''))
   \<and> handler (action_world (js ''TOOLONG'')) None empty_state =
       (Inr True,
        \<lparr>used_trends = Some [js ''AI''],
         launched_tokens = Some [launched_record (action_content (js ''TOOLONG'')) (js ''mint'') 0],
         respondedTweets = {},
         trace = [Logged LOG (js ''Starting CREATE_TRENDING_TOKEN handler...''),
                  AskedModel (TrendingTokenPrompt (js ''AI'')),
                  DeployToken (js ''X'') (js ''u'') (js ''TOOLONG'') 9],
         unhandled_rejections = []\<rparr>)"
proof
  show "\<not> valid_concept (js ''symbol'') (action_content (js ''TOOLONG''))"
    by (simp add: valid_concept_def action_content_def read_prop_def js_Cons js_Nil)
  have w: "getTrends (action_world tk) = Inr [trend_named (js ''AI'')]"
    "generateText (action_world tk) p = Inr (js ''response'')"
    "JSON_parse (action_world tk) r = Inr (action_content tk)"
    "cache_get_error (action_world tk) k = None"
    "cache_set_error (action_world tk) k = None"
    "SolanaAgentKit_new (action_world tk) = Inr ()"
    "deployToken (action_world tk) n u sy d = Inr (js ''mint'')"
    "Date_now (action_world tk) = 0" for tk p r k n u sy d
    by (simp_all add: action_world_def world_of_def quiet_world_def)
  have AI_not_empty: "js ''AI'' \<noteq> []"
    by (simp add: js_Cons)
  have ok: "isTrendingTokenContent (action_content (js ''TOOLONG'')) = Inr True"
    by (simp add: isTrendingTokenContent_def action_content_def read_prop_def js_Cons js_Nil)
  have args: "the_string (read_prop (action_content (js ''TOOLONG'')) (js ''name'')) = js ''X''"
    "the_string (read_prop (action_content (js ''TOOLONG'')) (js ''uri'')) = js ''u''"
    "the_string (read_prop (action_content (js ''TOOLONG'')) (js ''symbol'')) = js ''TOOLONG''"
    "the_number (read_prop (action_content (js ''TOOLONG'')) (js ''decimals'')) = 9"
    by (simp_all add: action_content_def read_prop_def js_Cons js_Nil)
  have "handler_body (action_world (js ''TOOLONG'')) None
          (empty_state\<lparr>trace := [Logged LOG (js ''Starting CREATE_TRENDING_TOKEN handler...'')]\<rparr>) =
       (Inr True,
        \<lparr>used_trends = Some [js ''AI''],
         launched_tokens = Some [launched_record (action_content (js ''TOOLONG'')) (js ''mint'') 0],
         respondedTweets = {},
         trace = [Logged LOG (js ''Starting CREATE_TRENDING_TOKEN handler...''),
                  AskedModel (TrendingTokenPrompt (js ''AI'')),
                  DeployToken (js ''X'') (js ''u'') (js ''TOOLONG'') 9],
         unhandled_rejections = []\<rparr>)"
    by (simp add: handler_body_def deploy_and_record_def deploy_def io_defs w ok args
        cache_get_used_trends_def cache_set_used_trends_def
        cache_get_launched_tokens_def cache_set_launched_tokens_def
        empty_state_def example_state_simps AI_not_empty)
  then show "handler (action_world (js ''TOOLONG'')) None empty_state =
       (Inr True,
        \<lparr>used_trends = Some [js ''AI''],
         launched_tokens = Some [launched_record (action_content (js ''TOOLONG'')) (js ''mint'') 0],
         respondedTweets = {},
         trace = [Logged LOG (js ''Starting CREATE_TRENDING_TOKEN handler...''),
                  AskedModel (TrendingTokenPrompt (js ''AI'')),
                  DeployToken (js ''X'') (js ''u'') (js ''TOOLONG'') 9],
         unhandled_rejections = []\<rparr>)"
    by (simp add: handler_def io_defs empty_state_def)
qed

section \<open>The engagement pass\<close>

lemma str_includes_iff_sublist: "str_includes s t \<longleftrightarrow> sublist t s"
  by (induction s) (auto simp: sublist_Cons_right)

lemma str_includes_empty: "str_includes s []"
  by (cases s) simp_all

lemma matches_empty: "matches [] tweet"
  by (simp add: matches_def str_includes_empty)

lemma find_selected_unique:
  assumes "c \<in> set cands" and "matches r c"
    and "\<forall>c'\<in>set cands. matches r c' \<longrightarrow> c' = c"
  shows "find_selected r cands = Some c"
proof -
  from assms(1,2) obtain x where x: "List.find (matches r) cands = Some x"
    by (cases "List.find (matches r) cands") (auto simp: find_None_iff)
  then have "x \<in> set cands" "matches r x"
    by (auto simp: find_Some_iff)
  with assms(3) x show ?thesis by (simp add: find_selected_def)
qed

lemma find_selected_none:
  "find_selected r cands = None \<longleftrightarrow> (\<forall>c\<in>set cands. \<not> matches r c)"
  by (auto simp: find_selected_def find_None_iff)

lemma find_selected_first:
  assumes "cands \<noteq> []" and "matches r (hd cands)"
  shows "find_selected r cands = Some (hd cands)"
  using assms by (cases cands) (simp_all add: find_selected_def)

text \<open>The pass up to the selection.\<close>

lemma engage_body_selection:
  assumes "fetchSearchTweets w (searchTerm w) = Inr recentTweets"
    and "fetchHomeTimeline w = Inr homeTimeline"
    and "cacheTimeline w homeTimeline = Inr ()"
    and "slicedTweets w recentTweets \<noteq> []"
    and "generateText w (selection_prompt w recentTweets homeTimeline) = Inr response"
  shows "engage_body w s =
    (case find_selected (trim response) (slicedTweets w recentTweets) of
       None \<Rightarrow> (Inr (),
          s\<lparr>trace := trace s @
             [Logged LOG (js ''Fetching search tweets''), FetchSearchTweets (searchTerm w),
              Logged LOG (js ''Search tweets fetched''),
              AskedModel (selection_prompt w recentTweets homeTimeline),
              Logged WARN (js ''No matching tweet found for the selected ID''),
              Logged LOG (js ''Selected tweet ID:'')]\<rparr>)
     | Some c \<Rightarrow> reply_to w c (trim response)
          (s\<lparr>trace := trace s @
             [Logged LOG (js ''Fetching search tweets''), FetchSearchTweets (searchTerm w),
              Logged LOG (js ''Search tweets fetched''),
              AskedModel (selection_prompt w recentTweets homeTimeline)]\<rparr>))"
  using assms by (simp add: engage_body_def select_and_reply_def io_defs split: option.splits)



lemma engage_passes:
  assumes "engage_body w (s\<lparr>trace := trace s @ [Logged LOG (js ''Engaging with search terms'')]\<rparr>) = (Inr u, s')"
  shows "engageWithSearchTerms w s = (Inr (), s')"
  using assms by (simp add: engageWithSearchTerms_def io_defs)

lemma describe_photos_ok:
  assumes "\<forall>p\<in>set ps. describeImage w p = Inr (description p)"
  shows "describe_photos w ps s = (Inr (map description ps), s)"
  using assms by (induction ps) simp_all

lemma create_memories_ok:
  assumes "\<forall>m\<in>set ms. createMemory w m = Inr ()"
  shows "create_memories w ms s = (Inr (), s)"
  using assms by (induction ms) simp_all

lemma unawaited_simps:
  "unawaited b (Inr x) s = (Inr (), s)"
  "unawaited True (Inl e) s = (Inl e, s)"
  "unawaited False (Inl e) s = (Inr (), s\<lparr>unhandled_rejections := unhandled_rejections s @ [e]\<rparr>)"
  by (simp_all add: unawaited_def)

lemma reply_to_sends:
  assumes "reply_succeeds w c tweetId responseText"
  shows "reply_to w c tweetId s =
    (Inr (), s\<lparr>respondedTweets := insert (tweet_id c) (respondedTweets s),
               trace := trace s @
                 [Logged LOG (js ''Selected tweet to reply to:''), GetTrendsUnawaited,
                  Logged LOG (js ''Bot would respond to tweet''),
                  SendTweet responseText tweetId]\<rparr>)"
proof -
  from assms obtain description memories where
    a: "username c \<noteq> twitterUsername w"
      "ensureConnection w c = Inr ()" "buildConversationThread w c = Inr ()"
      "tweet_text c \<noteq> []" "\<not> isRetweet c"
      "\<forall>p\<in>set (photos c). describeImage w p = Inr (description p)"
      "generateMessageResponse w
           (ReplyPrompt c (filter (\<lambda>reply. username reply \<noteq> twitterUsername w) (thread c))
              None (map description (photos c))) = Inr (Some responseText)"
      "composeState w c = Inr ()" "saveRequestMessage w c = Inr ()"
      "responseText \<noteq> []"
      "sendTweet w responseText tweetId = Inr memories"
      "\<forall>m\<in>set memories. createMemory w m = Inr ()"
      "updateRecentMessageState w = Inr ()" "evaluate w = Inr ()" "processActions w = Inr ()"
      "cache_set_error w (js ''twitter/tweet_generation_'' @ tweet_id c @ js ''.txt'') = None"
    unfolding reply_succeeds_def by blast
  from assms obtain trends where t: "getTrends w = Inr trends"
    unfolding reply_succeeds_def by blast
  have sb: "send_block w c tweetId responseText s' =
      (Inr (), s'\<lparr>respondedTweets := insert (tweet_id c) (respondedTweets s'),
                  trace := trace s' @ [SendTweet responseText tweetId]\<rparr>)" for s'
    using a(11,13-16)
    by (simp add: send_block_def io_defs create_memories_ok[OF a(12)] cache_set_tweet_generation_def)
  show ?thesis
    using a(1-5,7-10)
    by (simp add: reply_to_def io_defs describe_photos_ok[OF a(6)] sb t unawaited_simps)
qed

lemma example_tweet_simps:
  "tweet_id (plain_tweet i a) = i" "username (plain_tweet i a) = a"
  "tweet_text (plain_tweet i a) = js ''gm''" "thread (plain_tweet i a) = []"
  "photos (plain_tweet i a) = []" "isRetweet (plain_tweet i a) = False"
  by (simp_all add: plain_tweet_def)

lemma search_world_simps:
  "twitterUsername (search_world ts r) = js ''agent''"
  "topics (search_world ts r) = [js ''crypto'']" "random_topic (search_world ts r) = 0"
  "shuffle (search_world ts r) xs = xs"
  "fetchSearchTweets (search_world ts r) q = Inr ts"
  "fetchHomeTimeline (search_world ts r) = Inr []"
  "cacheTimeline (search_world ts r) h = Inr ()"
  "generateText (search_world ts r) p = Inr r"
  "ensureConnection (search_world ts r) c = Inr ()"
  "buildConversationThread (search_world ts r) c = Inr ()"
  "describeImage (search_world ts r) u = Inr []"
  "composeState (search_world ts r) c = Inr ()"
  "saveRequestMessage (search_world ts r) c = Inr ()"
  "generateMessageResponse (search_world ts r) p = Inr (Some (js ''hello''))"
  "sendTweet (search_world ts r) text i = Inr []"
  "updateRecentMessageState (search_world ts r) = Inr ()"
  "evaluate (search_world ts r) = Inr ()" "processActions (search_world ts r) = Inr ()"
  "cache_set_error (search_world ts r) k = None"
  by (simp_all add: search_world_def quiet_world_def)

section \<open>The thread-exclusion filter\<close>

text \<open>
  C6. Applied to the shuffled search results followed by the home timeline, the filter
  keeps the tweets in their order and removes exactly those whose thread contains a tweet
  whose username is the agent's; the selection prompt of a pass shows the tweets that
  remain.
\<close>

theorem thread_filter_removes_exactly_own_threads:
  "thread_filter me (sliced @ homeTimeline) =
     filter (\<lambda>tweet. \<not> (\<exists>t\<in>set (thread tweet). username t = me)) (sliced @ homeTimeline)
   \<and> (\<forall>tweet. tweet \<in> set (thread_filter me (sliced @ homeTimeline)) \<longleftrightarrow>
         tweet \<in> set (sliced @ homeTimeline) \<and> \<not> (\<exists>t\<in>set (thread tweet). username t = me))
   \<and> selection_prompt w recentTweets homeTimeline =
        SelectionPrompt (searchTerm w)
          (filter (\<lambda>tweet. \<not> (\<exists>t\<in>set (thread tweet). username t = twitterUsername w))
             (slicedTweets w recentTweets @ homeTimeline))"
proof -
  have "(List.find (\<lambda>t. username t = who) (thread tweet) = None) =
        (\<not> (\<exists>t\<in>set (thread tweet). username t = who))" for tweet who
    by (auto simp: find_None_iff)
  then have f: "thread_filter who pool =
     filter (\<lambda>tweet. \<not> (\<exists>t\<in>set (thread tweet). username t = who)) pool" for pool who
    by (simp add: thread_filter_def)
  show ?thesis
    unfolding selection_prompt_def f by auto
qed

text \<open>
  A search result in whose thread the agent has replied is removed; an old tweet and a
  timeline tweet without such a thread stay.
\<close>

theorem thread_filter_removes_exactly_own_threads_witness:
  "thread_filter (js ''agent'') ([old_tweet, own_thread_tweet] @ [new_tweet]) = [old_tweet, new_tweet]"
  using thread_filter_removes_exactly_own_threads[of "js ''agent''" "[old_tweet, own_thread_tweet]" "[new_tweet]"]
  by (simp add: old_tweet_def new_tweet_def own_thread_tweet_def example_tweet_simps js_Cons js_Nil)

section \<open>Resolving the model's answer to a candidate\<close>

lemma trim_simps:
  "trim [] = []"
  by (simp add: trim_def)

lemma search_world_pass:
  "searchTerm (search_world ts r) = Some (js ''crypto'')"
  "slicedTweets (search_world ts r) xs = take 20 xs"
  by (simp_all add: searchTerm_def slicedTweets_def at_index_def search_world_simps)

text \<open>
  C4 (amended). When the trimmed response matches exactly one candidate, in either
  direction (it occurs in the candidate's id, or the candidate's id occurs in it), the
  pass goes on with that candidate as the selected tweet. When it matches no candidate,
  the pass logs the warning and returns normally. A match is an occurrence as a
  contiguous run of code units.
\<close>

theorem unique_match_is_selected:
  assumes "fetchSearchTweets w (searchTerm w) = Inr recentTweets"
    and "fetchHomeTimeline w = Inr homeTimeline"
    and "cacheTimeline w homeTimeline = Inr ()"
    and "slicedTweets w recentTweets \<noteq> []"
    and "generateText w (selection_prompt w recentTweets homeTimeline) = Inr response"
  shows "(\<forall>c\<in>set (slicedTweets w recentTweets).
            matches (trim response) c \<and>
            (\<forall>c'\<in>set (slicedTweets w recentTweets). matches (trim response) c' \<longrightarrow> c' = c) \<longrightarrow>
            find_selected (trim response) (slicedTweets w recentTweets) = Some c \<and>
            engage_body w s = reply_to w c (trim response)
              (s\<lparr>trace := trace s @
                 [Logged LOG (js ''Fetching search tweets''), FetchSearchTweets (searchTerm w),
                  Logged LOG (js ''Search tweets fetched''),
                  AskedModel (selection_prompt w recentTweets homeTimeline)]\<rparr>))
       \<and> ((\<forall>c\<in>set (slicedTweets w recentTweets). \<not> matches (trim response) c) \<longrightarrow>
            engageWithSearchTerms w s = (Inr (),
              s\<lparr>trace := trace s @
                 [Logged LOG (js ''Engaging with search terms''),
                  Logged LOG (js ''Fetching search tweets''), FetchSearchTweets (searchTerm w),
                  Logged LOG (js ''Search tweets fetched''),
                  AskedModel (selection_prompt w recentTweets homeTimeline),
                  Logged WARN (js ''No matching tweet found for the selected ID''),
                  Logged LOG (js ''Selected tweet ID:'')]\<rparr>))
       \<and> (\<forall>c. matches (trim response) c \<longleftrightarrow>
              sublist (trim response) (tweet_id c) \<or> sublist (tweet_id c) (trim response))"
proof (intro conjI ballI impI allI)
  fix c
  assume c: "c \<in> set (slicedTweets w recentTweets)"
    and m: "matches (trim response) c \<and>
      (\<forall>c'\<in>set (slicedTweets w recentTweets). matches (trim response) c' \<longrightarrow> c' = c)"
  show f: "find_selected (trim response) (slicedTweets w recentTweets) = Some c"
  proof (rule find_selected_unique[OF c])
    show "matches (trim response) c" using m by (rule conjunct1)
    show "\<forall>c'\<in>set (slicedTweets w recentTweets). matches (trim response) c' \<longrightarrow> c' = c"
      using m by (rule conjunct2)
  qed
  show "engage_body w s = reply_to w c (trim response)
              (s\<lparr>trace := trace s @
                 [Logged LOG (js ''Fetching search tweets''), FetchSearchTweets (searchTerm w),
                  Logged LOG (js ''Search tweets fetched''),
                  AskedModel (selection_prompt w recentTweets homeTimeline)]\<rparr>)"
    using engage_body_selection[OF assms, of s] f by simp
next
  assume "\<forall>c\<in>set (slicedTweets w recentTweets). \<not> matches (trim response) c"
  then have n: "find_selected (trim response) (slicedTweets w recentTweets) = None"
    by (simp add: find_selected_none)
  show "engageWithSearchTerms w s = (Inr (),
              s\<lparr>trace := trace s @
                 [Logged LOG (js ''Engaging with search terms''),
                  Logged LOG (js ''Fetching search tweets''), FetchSearchTweets (searchTerm w),
                  Logged LOG (js ''Search tweets fetched''),
                  AskedModel (selection_prompt w recentTweets homeTimeline),
                  Logged WARN (js ''No matching tweet found for the selected ID''),
                  Logged LOG (js ''Selected tweet ID:'')]\<rparr>)"
    by (rule engage_passes)
       (simp add: engage_body_selection[OF assms] n)
next
  fix c
  show "matches (trim response) c \<longleftrightarrow>
      sublist (trim response) (tweet_id c) \<or> sublist (tweet_id c) (trim response)"
    by (simp add: matches_def str_includes_iff_sublist)
qed

lemma trim_best: "trim (js ''12345 is the best'') = js ''12345 is the best''"
  by (simp add: trim_def is_white_space_def js_Cons js_Nil)

lemma trim_none: "trim (js '' none '') = js ''none''"
  by (simp add: trim_def is_white_space_def js_Cons js_Nil)

lemma matches_best:
  "matches (js ''12345 is the best'') (plain_tweet (js ''12345'') a)"
  "\<not> matches (js ''12345 is the best'') (plain_tweet (js ''999'') a)"
  by (simp_all add: matches_def example_tweet_simps js_Cons js_Nil)

lemma matches_none:
  "\<not> matches (js ''none'') (plain_tweet (js ''12345'') a)"
  "\<not> matches (js ''none'') (plain_tweet (js ''999'') a)"
  by (simp_all add: matches_def example_tweet_simps js_Cons js_Nil)

text \<open>
  The scenario of the specification: the response \<open>12345 is the best\<close> resolves to the
  candidate with the id 12345; the response \<open>none\<close> resolves to no candidate.
\<close>

theorem unique_match_is_selected_witness:
  "find_selected (trim (js ''12345 is the best''))
     [plain_tweet (js ''999'') (js ''bob''), plain_tweet (js ''12345'') (js ''alice'')] =
     Some (plain_tweet (js ''12345'') (js ''alice''))
   \<and> engageWithSearchTerms
       (search_world [plain_tweet (js ''999'') (js ''bob''), plain_tweet (js ''12345'') (js ''alice'')]
          (js '' none '')) empty_state =
      (Inr (), empty_state\<lparr>trace :=
                 [Logged LOG (js ''Engaging with search terms''),
                  Logged LOG (js ''Fetching search tweets''), FetchSearchTweets (Some (js ''crypto'')),
                  Logged LOG (js ''Search tweets fetched''),
                  AskedModel (SelectionPrompt (Some (js ''crypto''))
                     [plain_tweet (js ''999'') (js ''bob''), plain_tweet (js ''12345'') (js ''alice'')]),
                  Logged WARN (js ''No matching tweet found for the selected ID''),
                  Logged LOG (js ''Selected tweet ID:'')]\<rparr>)"
proof
  let ?ts = "[plain_tweet (js ''999'') (js ''bob''), plain_tweet (js ''12345'') (js ''alice'')]"
  let ?w = "search_world ?ts (js ''12345 is the best'')"
  have h4: "slicedTweets ?w ?ts \<noteq> []"
    by (simp add: search_world_pass)
  from unique_match_is_selected[of ?w ?ts "[]" "js ''12345 is the best''" empty_state,
      OF search_world_simps(5) search_world_simps(6) search_world_simps(7) h4 search_world_simps(8)]
  show "find_selected (trim (js ''12345 is the best'')) ?ts =
     Some (plain_tweet (js ''12345'') (js ''alice''))"
    by (simp add: search_world_pass trim_best matches_best)
next
  let ?ts = "[plain_tweet (js ''999'') (js ''bob''), plain_tweet (js ''12345'') (js ''alice'')]"
  let ?w = "search_world ?ts (js '' none '')"
  have h4: "slicedTweets ?w ?ts \<noteq> []"
    by (simp add: search_world_pass)
  have p: "selection_prompt ?w ?ts [] = SelectionPrompt (Some (js ''crypto'')) ?ts"
    by (simp add: selection_prompt_def search_world_pass search_world_simps thread_filter_def
        example_tweet_simps)
  from unique_match_is_selected[of ?w ?ts "[]" "js '' none ''" empty_state,
      OF search_world_simps(5) search_world_simps(6) search_world_simps(7) h4 search_world_simps(8)]
  show "engageWithSearchTerms ?w empty_state =
      (Inr (), empty_state\<lparr>trace :=
                 [Logged LOG (js ''Engaging with search terms''),
                  Logged LOG (js ''Fetching search tweets''), FetchSearchTweets (Some (js ''crypto'')),
                  Logged LOG (js ''Search tweets fetched''),
                  AskedModel (SelectionPrompt (Some (js ''crypto'')) ?ts),
                  Logged WARN (js ''No matching tweet found for the selected ID''),
                  Logged LOG (js ''Selected tweet ID:'')]\<rparr>)"
    by (simp add: search_world_pass trim_none matches_none p empty_state_def)
qed

text \<open>
  C4 as stated fails: the response 1850000000000000020 occurs in the id of exactly one
  candidate, the tweet with that id, but the id 20 of an earlier candidate occurs in the
  response, and \<open>find\<close> returns the earlier candidate.
\<close>

theorem substring_match_picks_earlier_candidate:
  "str_includes (tweet_id new_tweet) (trim (js ''1850000000000000020''))
   \<and> \<not> str_includes (tweet_id old_tweet) (trim (js ''1850000000000000020''))
   \<and> find_selected (trim (js ''1850000000000000020'')) [old_tweet, new_tweet] = Some old_tweet
   \<and> old_tweet \<noteq> new_tweet"
proof -
  have t: "trim (js ''1850000000000000020'') = js ''1850000000000000020''"
    by (simp add: trim_def is_white_space_def js_Cons js_Nil)
  show ?thesis
    unfolding t
    by (simp add: find_selected_def matches_def old_tweet_def new_tweet_def plain_tweet_def
        js_Cons js_Nil)
qed

lemma describe_photos_state: "snd (describe_photos w ps s) = s"
  by (induction ps) (auto split: sum.splits prod.splits)

lemma create_memories_state: "snd (create_memories w ms s) = s"
  by (induction ms) (auto split: sum.splits)

lemma emits_describe_photos: "emits P (describe_photos w ps)"
  by (rule emits_silent) (simp add: describe_photos_state)

lemma emits_create_memories: "emits P (create_memories w ms)"
  by (rule emits_silent) (simp add: create_memories_state)

lemma emits_cache_set_tweet_generation: "emits P (cache_set_tweet_generation w i)"
  by (rule emits_silent) (simp add: cache_set_tweet_generation_def split: option.splits)

lemma emits_unawaited: "emits P (unawaited b r)"
  by (rule emits_silent) (simp add: unawaited_def split: sum.splits)

lemma emits_send_block:
  assumes "P (SendTweet text tweetId)"
  shows "emits P (send_block w c tweetId text)"
  unfolding send_block_def
  by (intro emits_await emits_emit emits_call emits_create_memories
        emits_cache_set_tweet_generation assms)
     (rule emits_silent, simp)

text \<open>The reply stage never logs the warning of the selection.\<close>

lemma emits_reply_to:
  "emits (\<lambda>ev. ev \<noteq> Logged WARN (js ''No matching tweet found for the selected ID''))
     (reply_to w c tweetId)"
  unfolding reply_to_def
  by (intro emits_await emits_if emits_try_catch emits_elizaLogger emits_console_error
        emits_emit emits_call emits_resolve emits_describe_photos emits_send_block
        emits_unawaited)
     (simp_all add: js_Cons js_Nil)

lemma emits_select_and_reply: "emits (\<lambda>ev. True) (select_and_reply w recentTweets)"
  unfolding select_and_reply_def
  by (intro emits_await emits_if emits_case_option emits_elizaLogger emits_ask_model
        emits_call emits_mono[OF emits_reply_to])
     simp_all

section \<open>An empty topic list\<close>

text \<open>
  With no topic configured the search term is \<open>undefined\<close>, whatever the random index,
  and every pass goes on to call \<open>fetchSearchTweets\<close> with it.
\<close>

lemma empty_topics_fetch_undefined:
  assumes "topics w = []"
  shows "searchTerm w = None"
    and "\<exists>evs. new_events s (snd (engageWithSearchTerms w s)) =
           [Logged LOG (js ''Engaging with search terms''),
            Logged LOG (js ''Fetching search tweets''), FetchSearchTweets None] @ evs"
proof -
  show st: "searchTerm w = None"
    using assms by (simp add: searchTerm_def at_index_def)
  let ?s3 = "s\<lparr>trace := trace s @ [Logged LOG (js ''Engaging with search terms''),
            Logged LOG (js ''Fetching search tweets''), FetchSearchTweets None]\<rparr>"
  show "\<exists>evs. new_events s (snd (engageWithSearchTerms w s)) =
           [Logged LOG (js ''Engaging with search terms''),
            Logged LOG (js ''Fetching search tweets''), FetchSearchTweets None] @ evs"
  proof (cases "fetchSearchTweets w None")
    case (Inl e)
    then have "engageWithSearchTerms w s =
        (Inr (), ?s3\<lparr>trace := trace ?s3 @ [ConsoleError (js ''Error engaging with search terms:'')]\<rparr>)"
      using st by (simp add: engageWithSearchTerms_def engage_body_def io_defs)
    then show ?thesis by (simp add: new_events_def)
  next
    case (Inr recentTweets)
    obtain evs where evs: "trace (snd (select_and_reply w recentTweets ?s3)) = trace ?s3 @ evs"
      by (rule emitsD[OF emits_select_and_reply])
    obtain r s' where rs: "select_and_reply w recentTweets ?s3 = (r, s')"
      by (cases "select_and_reply w recentTweets ?s3")
    have "engageWithSearchTerms w s =
        (case r of Inl e \<Rightarrow> (Inr (), s'\<lparr>trace := trace s' @ [ConsoleError (js ''Error engaging with search terms:'')]\<rparr>)
         | Inr u \<Rightarrow> (Inr (), s'))"
      using st Inr rs
      by (simp add: engageWithSearchTerms_def engage_body_def io_defs split: sum.splits)
    with evs rs show ?thesis
      by (cases r) (simp_all add: new_events_def)
  qed
qed

text \<open>
  C9: nothing guards the empty topic list. With no topic, one search result and the
  answer \<open>none\<close>, the pass fetches search results for \<open>undefined\<close> and asks the model
  about the tweets found for that term.
\<close>

theorem empty_topic_list_is_not_guarded:
  "searchTerm ((search_world [plain_tweet (js ''999'') (js ''bob'')] (js ''none''))\<lparr>topics := []\<rparr>) = None
   \<and> engageWithSearchTerms
        ((search_world [plain_tweet (js ''999'') (js ''bob'')] (js ''none''))\<lparr>topics := []\<rparr>)
        empty_state =
      (Inr (), empty_state\<lparr>trace :=
                 [Logged LOG (js ''Engaging with search terms''),
                  Logged LOG (js ''Fetching search tweets''), FetchSearchTweets None,
                  Logged LOG (js ''Search tweets fetched''),
                  AskedModel (SelectionPrompt None [plain_tweet (js ''999'') (js ''bob'')]),
                  Logged WARN (js ''No matching tweet found for the selected ID''),
                  Logged LOG (js ''Selected tweet ID:'')]\<rparr>)"
proof -
  let ?ts = "[plain_tweet (js ''999'') (js ''bob'')]"
  let ?w = "(search_world ?ts (js ''none''))\<lparr>topics := []\<rparr>"
  have st: "searchTerm ?w = None"
    by (simp add: searchTerm_def at_index_def)
  have sl: "slicedTweets ?w ?ts = ?ts"
    by (simp add: slicedTweets_def search_world_simps)
  have p: "selection_prompt ?w ?ts [] = SelectionPrompt None ?ts"
    by (simp add: selection_prompt_def st sl search_world_simps thread_filter_def example_tweet_simps)
  have t: "trim (js ''none'') = js ''none''"
    by (simp add: trim_def is_white_space_def js_Cons js_Nil)
  have n: "find_selected (js ''none'') ?ts = None"
    by (simp add: find_selected_def matches_none)
  have "engage_body ?w s =
      (Inr (), s\<lparr>trace := trace s @
             [Logged LOG (js ''Fetching search tweets''), FetchSearchTweets (searchTerm ?w),
              Logged LOG (js ''Search tweets fetched''),
              AskedModel (selection_prompt ?w ?ts []),
              Logged WARN (js ''No matching tweet found for the selected ID''),
              Logged LOG (js ''Selected tweet ID:'')]\<rparr>)" for s
    using engage_body_selection[of ?w ?ts "[]" "js ''none''" s]
    by (simp add: search_world_simps sl t n)
  then show ?thesis
    by (simp add: engageWithSearchTerms_def io_defs st p empty_state_def)
qed

section \<open>A response that trims to the empty string\<close>

text \<open>
  When the selection response trims to the empty string, the match resolves to the first
  tweet of the candidate pool, since the empty string occurs in every id: the pass goes
  on to the reply stage with that tweet, it never logs the no-match warning, and where
  the reply stage succeeds, \<open>sendTweet\<close> is called and the tweet is recorded as responded
  to. The id that \<open>sendTweet\<close> is given as the tweet to reply to is the trimmed response,
  which is the empty string.
\<close>

lemma empty_response_resolves_to_first_candidate:
  assumes "fetchSearchTweets w (searchTerm w) = Inr recentTweets"
    and "fetchHomeTimeline w = Inr homeTimeline"
    and "cacheTimeline w homeTimeline = Inr ()"
    and "slicedTweets w recentTweets \<noteq> []"
    and "generateText w (selection_prompt w recentTweets homeTimeline) = Inr response"
    and "trim response = []"
  shows "find_selected (trim response) (slicedTweets w recentTweets) =
           Some (hd (slicedTweets w recentTweets))
       \<and> engage_body w s = reply_to w (hd (slicedTweets w recentTweets)) []
              (s\<lparr>trace := trace s @
                 [Logged LOG (js ''Fetching search tweets''), FetchSearchTweets (searchTerm w),
                  Logged LOG (js ''Search tweets fetched''),
                  AskedModel (selection_prompt w recentTweets homeTimeline)]\<rparr>)
       \<and> Logged WARN (js ''No matching tweet found for the selected ID'')
            \<notin> set (new_events s (snd (engageWithSearchTerms w s)))
       \<and> (reply_succeeds w (hd (slicedTweets w recentTweets)) [] responseText \<longrightarrow>
            engageWithSearchTerms w s = (Inr (),
              s\<lparr>respondedTweets :=
                   insert (tweet_id (hd (slicedTweets w recentTweets))) (respondedTweets s),
                 trace := trace s @
                 [Logged LOG (js ''Engaging with search terms''),
                  Logged LOG (js ''Fetching search tweets''), FetchSearchTweets (searchTerm w),
                  Logged LOG (js ''Search tweets fetched''),
                  AskedModel (selection_prompt w recentTweets homeTimeline),
                  Logged LOG (js ''Selected tweet to reply to:''), GetTrendsUnawaited,
                  Logged LOG (js ''Bot would respond to tweet''),
                  SendTweet responseText []]\<rparr>))"
proof (intro conjI impI)
  let ?c = "hd (slicedTweets w recentTweets)"
  let ?pre = "[Logged LOG (js ''Fetching search tweets''), FetchSearchTweets (searchTerm w),
                  Logged LOG (js ''Search tweets fetched''),
                  AskedModel (selection_prompt w recentTweets homeTimeline)]"
  show f: "find_selected (trim response) (slicedTweets w recentTweets) = Some ?c"
    using assms(4,6) by (simp add: find_selected_first matches_empty)
  show eb: "engage_body w s = reply_to w ?c [] (s\<lparr>trace := trace s @ ?pre\<rparr>)" for s
    using engage_body_selection[OF assms(1-5), of s] f assms(6) by simp
  let ?s1 = "s\<lparr>trace := trace s @ [Logged LOG (js ''Engaging with search terms'')]\<rparr>"
  let ?s5 = "?s1\<lparr>trace := trace ?s1 @ ?pre\<rparr>"
  obtain r s' where rs: "reply_to w ?c [] ?s5 = (r, s')"
    by (cases "reply_to w ?c [] ?s5")
  obtain evs where evs: "trace (snd (reply_to w ?c [] ?s5)) = trace ?s5 @ evs"
    "list_all (\<lambda>ev. ev \<noteq> Logged WARN (js ''No matching tweet found for the selected ID'')) evs"
    by (rule emitsD[OF emits_reply_to])
  have run: "engageWithSearchTerms w s =
      (case r of Inl e \<Rightarrow> (Inr (), s'\<lparr>trace := trace s' @ [ConsoleError (js ''Error engaging with search terms:'')]\<rparr>)
       | Inr u \<Rightarrow> (Inr (), s'))"
    using eb[of ?s1] rs by (simp add: engageWithSearchTerms_def io_defs split: sum.splits)
  have w: "Logged WARN (js ''No matching tweet found for the selected ID'') \<notin> set evs"
    using evs(2) by (auto simp: list_all_iff)
  show "Logged WARN (js ''No matching tweet found for the selected ID'')
            \<notin> set (new_events s (snd (engageWithSearchTerms w s)))"
    using run rs evs(1) w
    by (cases r) (simp_all add: new_events_def js_Cons js_Nil)
next
  let ?c = "hd (slicedTweets w recentTweets)"
  let ?pre = "[Logged LOG (js ''Fetching search tweets''), FetchSearchTweets (searchTerm w),
                  Logged LOG (js ''Search tweets fetched''),
                  AskedModel (selection_prompt w recentTweets homeTimeline)]"
  assume ok: "reply_succeeds w ?c [] responseText"
  have f: "find_selected (trim response) (slicedTweets w recentTweets) = Some ?c"
    using assms(4,6) by (simp add: find_selected_first matches_empty)
  have eb: "engage_body w s = reply_to w ?c [] (s\<lparr>trace := trace s @ ?pre\<rparr>)" for s
    using engage_body_selection[OF assms(1-5), of s] f assms(6) by simp
  show "engageWithSearchTerms w s = (Inr (),
              s\<lparr>respondedTweets := insert (tweet_id ?c) (respondedTweets s),
                 trace := trace s @
                 [Logged LOG (js ''Engaging with search terms''),
                  Logged LOG (js ''Fetching search tweets''), FetchSearchTweets (searchTerm w),
                  Logged LOG (js ''Search tweets fetched''),
                  AskedModel (selection_prompt w recentTweets homeTimeline),
                  Logged LOG (js ''Selected tweet to reply to:''), GetTrendsUnawaited,
                  Logged LOG (js ''Bot would respond to tweet''),
                  SendTweet responseText []]\<rparr>)"
    by (rule engage_passes) (simp add: eb reply_to_sends[OF ok])
qed

text \<open>
  C10. Two candidates, with the ids 111 and 222, and a selection response of two spaces,
  every later guard passing and every call succeeding. The response trims to the empty
  string, the match resolves to the first candidate, and the pass generates a reply for
  it, logs that it responds to that tweet and records the tweet 111 as responded to.
  But the tweet is not replied to: the only call of \<open>sendTweet\<close> names the trimmed
  response, the empty string, as the tweet to reply to, and no call names the id 111.
  The callback passes \<open>tweetId\<close> where the lines around it use \<open>selectedTweet.id\<close>.
\<close>

theorem empty_response_reply_does_not_name_selected_tweet:
  "find_selected (trim (js ''  ''))
      [plain_tweet (js ''111'') (js ''alice''), plain_tweet (js ''222'') (js ''bob'')] =
     Some (plain_tweet (js ''111'') (js ''alice''))
   \<and> engageWithSearchTerms
        (search_world [plain_tweet (js ''111'') (js ''alice''), plain_tweet (js ''222'') (js ''bob'')]
           (js ''  '')) empty_state =
      (Inr (), empty_state\<lparr>respondedTweets := {js ''111''},
                 trace :=
                 [Logged LOG (js ''Engaging with search terms''),
                  Logged LOG (js ''Fetching search tweets''), FetchSearchTweets (Some (js ''crypto'')),
                  Logged LOG (js ''Search tweets fetched''),
                  AskedModel (SelectionPrompt (Some (js ''crypto''))
                    [plain_tweet (js ''111'') (js ''alice''), plain_tweet (js ''222'') (js ''bob'')]),
                  Logged LOG (js ''Selected tweet to reply to:''), GetTrendsUnawaited,
                  Logged LOG (js ''Bot would respond to tweet''),
                  SendTweet (js ''hello'') []]\<rparr>)
   \<and> SendTweet (js ''hello'') (js ''111'') \<notin> set (trace (snd (engageWithSearchTerms
        (search_world [plain_tweet (js ''111'') (js ''alice''), plain_tweet (js ''222'') (js ''bob'')]
           (js ''  '')) empty_state)))"
proof -
  let ?ts = "[plain_tweet (js ''111'') (js ''alice''), plain_tweet (js ''222'') (js ''bob'')]"
  let ?w = "search_world ?ts (js ''  '')"
  have h4: "slicedTweets ?w ?ts \<noteq> []"
    by (simp add: search_world_pass)
  have h6: "trim (js ''  '') = []"
    by (simp add: trim_def is_white_space_def js_Cons js_Nil)
  have hd: "hd (slicedTweets ?w ?ts) = plain_tweet (js ''111'') (js ''alice'')"
    by (simp add: search_world_pass)
  have p: "selection_prompt ?w ?ts [] = SelectionPrompt (Some (js ''crypto'')) ?ts"
    by (simp add: selection_prompt_def search_world_pass search_world_simps thread_filter_def
        example_tweet_simps)
  have g: "getTrends (search_world ts r) = Inr []" for ts r
    by (simp add: search_world_def quiet_world_def)
  have ok: "reply_succeeds ?w (hd (slicedTweets ?w ?ts)) [] (js ''hello'')"
    unfolding hd
    by (simp add: reply_succeeds_def search_world_simps example_tweet_simps g js_Cons js_Nil)
  from empty_response_resolves_to_first_candidate[of ?w ?ts "[]" "js ''  ''" empty_state "js ''hello''",
      OF search_world_simps(5) search_world_simps(6) search_world_simps(7) h4 search_world_simps(8) h6]
    ok
  have run: "find_selected (trim (js ''  '')) ?ts = Some (plain_tweet (js ''111'') (js ''alice''))
    \<and> engageWithSearchTerms ?w empty_state =
      (Inr (), empty_state\<lparr>respondedTweets := {js ''111''},
                 trace :=
                 [Logged LOG (js ''Engaging with search terms''),
                  Logged LOG (js ''Fetching search tweets''), FetchSearchTweets (Some (js ''crypto'')),
                  Logged LOG (js ''Search tweets fetched''),
                  AskedModel (SelectionPrompt (Some (js ''crypto'')) ?ts),
                  Logged LOG (js ''Selected tweet to reply to:''), GetTrendsUnawaited,
                  Logged LOG (js ''Bot would respond to tweet''),
                  SendTweet (js ''hello'') []]\<rparr>)"
    by (simp add: hd h6 p search_world_pass empty_state_def example_tweet_simps)
  have ne: "js ''111'' \<noteq> []"
    by (simp add: js_Cons)
  from run ne show ?thesis
    by simp
qed

section \<open>The engagement loop\<close>

lemma never_overlap_snoc:
  "never_overlap (ps @ [q]) \<longleftrightarrow> never_overlap ps \<and> list_all (\<lambda>p. \<not> overlap p q) ps"
  by (induction ps) auto

lemma loop_call_simps:
  "passes (engageWithSearchTermsLoop tm ls) = passes ls @
     [\<lparr>started = clock ls,
       settled = clock ls + 5000 + settle_after tm (length (passes ls)),
       rescheduled_at = clock ls,
       next_due = clock ls + (floor_random_61 tm (length (passes ls)) + 60) * 60 * 1000\<rparr>]"
  "timer (engageWithSearchTermsLoop tm ls) =
     Some (clock ls + (floor_random_61 tm (length (passes ls)) + 60) * 60 * 1000)"
  "clock (engageWithSearchTermsLoop tm ls) = clock ls"
  by (simp_all add: engageWithSearchTermsLoop_def Let_def)

lemma timer_fires_simps:
  "passes (timer_fires ls) = passes ls"
  "clock (timer_fires ls) = (case timer ls of None \<Rightarrow> clock ls | Some due \<Rightarrow> due)"
  by (simp_all add: timer_fires_def split: option.splits)

lemma length_passes_run: "length (passes (run_loop tm n (at_start t0))) = n"
  by (induction n) (simp_all add: at_start_def loop_call_simps timer_fires_simps)

text \<open>Each pass is rescheduled at its own start, at least an hour ahead.\<close>

lemma run_loop_passes:
  "\<forall>p\<in>set (passes (run_loop tm n (at_start t0))).
     rescheduled_at p = started p \<and> started p + 5000 \<le> settled p \<and>
     started p + 3600000 \<le> next_due p"
  by (induction n) (simp_all add: at_start_def loop_call_simps timer_fires_simps)

lemma run_loop_due_bound:
  assumes "\<forall>k<n. floor_random_61 tm k \<le> 60"
  shows "\<forall>p\<in>set (passes (run_loop tm n (at_start t0))). next_due p \<le> started p + 7200000"
  using assms
proof (induction n)
  case 0
  then show ?case by (simp add: at_start_def)
next
  case (Suc n)
  then have "floor_random_61 tm n \<le> 60" by simp
  with Suc show ?case
    by (simp add: loop_call_simps timer_fires_simps length_passes_run)
qed

text \<open>
  If every pass settles within an hour of its start, all passes so far have settled when
  the pending timer is due, and no two of them overlap.
\<close>

lemma run_loop_no_overlap:
  assumes "\<forall>k<n. 5000 + settle_after tm k \<le> 3600000"
  shows "never_overlap (passes (run_loop tm n (at_start t0))) \<and>
         (\<forall>p\<in>set (passes (run_loop tm n (at_start t0))).
            \<forall>due. timer (run_loop tm n (at_start t0)) = Some due \<longrightarrow> settled p \<le> due) \<and>
         (0 < n \<longrightarrow> timer (run_loop tm n (at_start t0)) \<noteq> None)"
  using assms
proof (induction n)
  case 0
  then show ?case by (simp add: at_start_def)
next
  case (Suc n)
  let ?ls = "run_loop tm n (at_start t0)"
  let ?now = "clock (timer_fires ?ls)"
  from Suc have ih: "never_overlap (passes ?ls)"
    "\<forall>p\<in>set (passes ?ls). \<forall>due. timer ?ls = Some due \<longrightarrow> settled p \<le> due"
    "0 < n \<longrightarrow> timer ?ls \<noteq> None"
    and d: "5000 + settle_after tm n \<le> 3600000"
    by simp_all
  have before: "settled p \<le> ?now" if "p \<in> set (passes ?ls)" for p
  proof (cases n)
    case 0
    with that show ?thesis by (simp add: at_start_def)
  next
    case (Suc m)
    with ih(3) obtain due where due: "timer ?ls = Some due" by auto
    with ih(2) that show ?thesis by (simp add: timer_fires_simps)
  qed
  have 1: "never_overlap (passes (run_loop tm (Suc n) (at_start t0)))"
    using ih(1) before
    by (auto simp: loop_call_simps timer_fires_simps(1) never_overlap_snoc overlap_def
        list_all_iff not_less)
  have 2: "settled p \<le> due"
    if "p \<in> set (passes (run_loop tm (Suc n) (at_start t0)))"
      "timer (run_loop tm (Suc n) (at_start t0)) = Some due" for p due
  proof -
    from that(2) have due: "due = ?now + (floor_random_61 tm n + 60) * 60 * 1000"
      by (simp add: loop_call_simps timer_fires_simps(1) length_passes_run)
    from that(1) consider "p \<in> set (passes ?ls)"
      | "settled p = ?now + 5000 + settle_after tm n"
      by (auto simp: loop_call_simps timer_fires_simps(1) length_passes_run)
    then show ?thesis
    proof cases
      case 1
      from before[OF 1] due show ?thesis by simp
    next
      case 2
      with d due show ?thesis by simp
    qed
  qed
  from 1 2 show ?case by (simp add: loop_call_simps(2))
qed

text \<open>
  C5 (amended). The loop does not wait for the pass it starts: in the same turn it sets
  the timer for its next run, before the pass has completed, sixty minutes or more ahead
  (at most 120 when the draw is at most 60). Passes do not overlap as long as every pass
  settles within sixty minutes of its start.
\<close>

theorem passes_do_not_overlap_when_shorter_than_the_delay:
  "(\<forall>p\<in>set (passes (run_loop tm n (at_start t0))).
      rescheduled_at p = started p \<and> rescheduled_at p < settled p \<and>
      started p + 3600000 \<le> next_due p)
   \<and> ((\<forall>k<n. floor_random_61 tm k \<le> 60) \<longrightarrow>
        (\<forall>p\<in>set (passes (run_loop tm n (at_start t0))). next_due p \<le> started p + 7200000))
   \<and> ((\<forall>k<n. 5000 + settle_after tm k \<le> 3600000) \<longrightarrow>
        never_overlap (passes (run_loop tm n (at_start t0))))"
proof (intro conjI impI)
  show "\<forall>p\<in>set (passes (run_loop tm n (at_start t0))).
      rescheduled_at p = started p \<and> rescheduled_at p < settled p \<and>
      started p + 3600000 \<le> next_due p"
    using run_loop_passes[of tm n t0] by auto
  show "\<forall>p\<in>set (passes (run_loop tm n (at_start t0))). next_due p \<le> started p + 7200000"
    if "\<forall>k<n. floor_random_61 tm k \<le> 60"
    using that by (rule run_loop_due_bound)
  show "never_overlap (passes (run_loop tm n (at_start t0)))"
    if "\<forall>k<n. 5000 + settle_after tm k \<le> 3600000"
    using run_loop_no_overlap[OF that] by simp
qed

lemma run_quick_2:
  "passes (run_loop quick_timing 2 (at_start 0)) =
     [\<lparr>started = 0, settled = 6000, rescheduled_at = 0, next_due = 3600000\<rparr>,
      \<lparr>started = 3600000, settled = 3606000, rescheduled_at = 3600000, next_due = 7200000\<rparr>]"
  by (simp add: numeral_2_eq_2 at_start_def loop_call_simps timer_fires_simps quick_timing_def)

lemma run_slow_2:
  "passes (run_loop slow_timing 2 (at_start 0)) =
     [\<lparr>started = 0, settled = 7205000, rescheduled_at = 0, next_due = 3600000\<rparr>,
      \<lparr>started = 3600000, settled = 10805000, rescheduled_at = 3600000, next_due = 7200000\<rparr>]"
  by (simp add: numeral_2_eq_2 at_start_def loop_call_simps timer_fires_simps slow_timing_def)

text \<open>Two runs of the loop with passes of six seconds: the passes do not overlap.\<close>

theorem passes_do_not_overlap_when_shorter_than_the_delay_witness:
  "never_overlap (passes (run_loop quick_timing 2 (at_start 0)))
   \<and> list_all (\<lambda>p. rescheduled_at p < settled p)
        (passes (run_loop quick_timing 2 (at_start 0)))"
proof -
  have h: "\<forall>k<2. 5000 + settle_after quick_timing k \<le> 3600000"
    by (simp add: quick_timing_def)
  from passes_do_not_overlap_when_shorter_than_the_delay[of quick_timing 2 0] h
  show ?thesis by (auto simp: list_all_iff)
qed

text \<open>
  C5 as stated fails: with passes that need two hours and a delay of sixty minutes, the
  second pass starts while the first is pending; and the timer is always set before
  the pass started in the same turn has completed.
\<close>

theorem slow_passes_overlap:
  "\<not> never_overlap (passes (run_loop slow_timing 2 (at_start 0)))
   \<and> \<not> rescheduled_after_pass (passes (run_loop slow_timing 2 (at_start 0)))
   \<and> \<not> rescheduled_after_pass (passes (run_loop quick_timing 2 (at_start 0)))"
  by (simp add: run_slow_2 run_quick_2 overlap_def rescheduled_after_pass_def)

section \<open>Rejections that nobody handles\<close>





















section \<open>Errors\<close>



lemma failing_world_simps:
  "getTrends (failing_world b) = Inl (Error (js ''network''))"
  "getTrends_throws (failing_world b) = b"
  "twitterUsername (failing_world b) = js ''agent''"
  "fetchSearchTweets (failing_world b) q = Inr [plain_tweet (js ''111'') (js ''alice'')]"
  "fetchHomeTimeline (failing_world b) = Inr []"
  "cacheTimeline (failing_world b) h = Inr ()"
  "generateText (failing_world b) p = Inr (js ''111'')"
  "ensureConnection (failing_world b) c = Inr ()"
  "buildConversationThread (failing_world b) c = Inr ()"
  "describeImage (failing_world b) u = Inr []"
  "composeState (failing_world b) c = Inr ()"
  "saveRequestMessage (failing_world b) c = Inr ()"
  "generateMessageResponse (failing_world b) p = Inr (Some (js ''hello''))"
  "sendTweet (failing_world b) text i = Inr []"
  "updateRecentMessageState (failing_world b) = Inr ()"
  "evaluate (failing_world b) = Inr ()" "processActions (failing_world b) = Inr ()"
  "cache_set_error (failing_world b) k = None"
  "searchTerm (failing_world b) = Some (js ''crypto'')"
  "slicedTweets (failing_world b) xs = take 20 xs"
  by (simp_all add: failing_world_def search_world_def quiet_world_def searchTerm_def
      slicedTweets_def at_index_def)

lemma failing_world_selects:
  "engage_body (failing_world b) s =
     reply_to (failing_world b) (plain_tweet (js ''111'') (js ''alice'')) (js ''111'')
       (s\<lparr>trace := trace s @
          [Logged LOG (js ''Fetching search tweets''), FetchSearchTweets (Some (js ''crypto'')),
           Logged LOG (js ''Search tweets fetched''),
           AskedModel (SelectionPrompt (Some (js ''crypto''))
             [plain_tweet (js ''111'') (js ''alice'')])]\<rparr>)"
proof -
  let ?w = "failing_world b"
  let ?ts = "[plain_tweet (js ''111'') (js ''alice'')]"
  have t: "trim (js ''111'') = js ''111''"
    by (simp add: trim_def is_white_space_def js_Cons js_Nil)
  have m: "matches (js ''111'') (plain_tweet (js ''111'') (js ''alice''))"
    by (simp add: matches_def str_includes_iff_sublist example_tweet_simps)
  have f: "find_selected (js ''111'') ?ts = Some (plain_tweet (js ''111'') (js ''alice''))"
    by (simp add: find_selected_def m)
  have p: "selection_prompt ?w ?ts [] = SelectionPrompt (Some (js ''crypto'')) ?ts"
    by (simp add: selection_prompt_def failing_world_simps thread_filter_def example_tweet_simps)
  have sl: "slicedTweets ?w ?ts \<noteq> []"
    by (simp add: failing_world_simps)
  from engage_body_selection[of ?w ?ts "[]" "js ''111''" s,
      OF failing_world_simps(4) failing_world_simps(5) failing_world_simps(6) sl
         failing_world_simps(7)]
  show ?thesis
    by (simp add: t f p failing_world_simps)
qed

text \<open>
  The un-awaited call of \<open>getTrends\<close> in a pass that has selected the tweet 111. When the
  call throws, the pass is left at that statement: the outer \<open>catch\<close> logs the error and
  no reply is sent.
\<close>

lemma getTrends_throw_ends_pass:
  "engageWithSearchTerms (failing_world True) empty_state =
     (Inr (), empty_state\<lparr>trace :=
        [Logged LOG (js ''Engaging with search terms''),
         Logged LOG (js ''Fetching search tweets''), FetchSearchTweets (Some (js ''crypto'')),
         Logged LOG (js ''Search tweets fetched''),
         AskedModel (SelectionPrompt (Some (js ''crypto''))
           [plain_tweet (js ''111'') (js ''alice'')]),
         Logged LOG (js ''Selected tweet to reply to:''), GetTrendsUnawaited,
         ConsoleError (js ''Error engaging with search terms:'')]\<rparr>)"
proof -
  have ne: "js ''alice'' \<noteq> js ''agent''" "js ''gm'' \<noteq> []"
    by (simp_all add: js_Cons js_Nil)
  have "reply_to (failing_world True) (plain_tweet (js ''111'') (js ''alice'')) (js ''111'') s =
      (Inl (Error (js ''network'')),
       s\<lparr>trace := trace s @ [Logged LOG (js ''Selected tweet to reply to:''), GetTrendsUnawaited]\<rparr>)"
    for s
    by (simp add: reply_to_def io_defs failing_world_simps example_tweet_simps unawaited_simps ne)
  then show ?thesis
    by (simp add: engageWithSearchTerms_def io_defs failing_world_selects empty_state_def)
qed

text \<open>
  When the call hands back a promise that rejects, no \<open>catch\<close> block sees the rejection
  and no line is logged for it: it is left unhandled. In a host that lets the process
  live, the pass goes on and sends its reply.
\<close>

lemma getTrends_rejection_is_unhandled:
  "engageWithSearchTerms (failing_world False) empty_state =
     (Inr (), empty_state\<lparr>respondedTweets := {js ''111''},
        trace :=
        [Logged LOG (js ''Engaging with search terms''),
         Logged LOG (js ''Fetching search tweets''), FetchSearchTweets (Some (js ''crypto'')),
         Logged LOG (js ''Search tweets fetched''),
         AskedModel (SelectionPrompt (Some (js ''crypto''))
           [plain_tweet (js ''111'') (js ''alice'')]),
         Logged LOG (js ''Selected tweet to reply to:''), GetTrendsUnawaited,
         Logged LOG (js ''Bot would respond to tweet''),
         SendTweet (js ''hello'') (js ''111'')],
        unhandled_rejections := [Error (js ''network'')]\<rparr>)"
proof -
  have ne: "js ''alice'' \<noteq> js ''agent''" "js ''gm'' \<noteq> []" "js ''hello'' \<noteq> []"
    by (simp_all add: js_Cons js_Nil)
  have "reply_to (failing_world False) (plain_tweet (js ''111'') (js ''alice'')) (js ''111'') s =
      (Inr (),
       s\<lparr>respondedTweets := insert (js ''111'') (respondedTweets s),
         trace := trace s @ [Logged LOG (js ''Selected tweet to reply to:''), GetTrendsUnawaited,
           Logged LOG (js ''Bot would respond to tweet''),
           SendTweet (js ''hello'') (js ''111'')],
         unhandled_rejections := unhandled_rejections s @ [Error (js ''network'')]\<rparr>)"
    for s
    by (simp add: reply_to_def send_block_def cache_set_tweet_generation_def io_defs
        failing_world_simps example_tweet_simps unawaited_simps ne)
  then show ?thesis
    by (simp add: engageWithSearchTerms_def io_defs failing_world_selects empty_state_def)
qed




end
